theory Spec2Isabelle
  imports Main "HOL-Library.Word" "HOL-Library.Sublist"
begin

section \<open>Errors\<close>

text \<open>
  Go's \<open>error\<close> values. An error made by \<open>errors.New\<close> or handed in by the operating
  system, the container engine or a subprocess is \<open>ErrorString\<close>; an error made by
  \<open>fmt.Errorf(format, args...)\<close> keeps its format string and its arguments, one
  argument per verb: \<open>S\<close> for a string under \<open>%s\<close>, \<open>Q\<close> for a string under \<open>%q\<close>,
  \<open>D\<close> for an integer under \<open>%d\<close>, \<open>W\<close> for an error under \<open>%w\<close> or \<open>%v\<close>.
\<close>

datatype error = ErrorString string | Errorf string "fmtArg list"
and fmtArg = S string | Q string | D int | W error

section \<open>Cleanup ledger (package internal: CleanupManager)\<close>

text \<open>
  A release action is a \<open>func() error\<close> closure: it acts on the world \<open>'s\<close> and returns
  an error or nil. The ledger is the slice \<open>funcs\<close>; the mutex only serialises callers
  and has no counterpart in this sequential model.
\<close>

record 's cleanupFunc =
  name :: string
  fn :: "'s \<Rightarrow> error option \<times> 's"

record 's CleanupManager =
  funcs :: "'s cleanupFunc list"

definition NewCleanupManager :: "'s CleanupManager" where
  "NewCleanupManager = \<lparr>funcs = []\<rparr>"

text \<open>\<open>m.funcs = append([]cleanupFunc{{name, fn}}, m.funcs...)\<close>: the new entry goes in front.\<close>

definition Add :: "string \<Rightarrow> ('s \<Rightarrow> error option \<times> 's) \<Rightarrow> 's CleanupManager \<Rightarrow> 's CleanupManager" where
  "Add n f m = m\<lparr>funcs := \<lparr>name = n, fn = f\<rparr> # funcs m\<rparr>"

text \<open>
  The loop of \<open>Execute\<close>: each entry's \<open>fn\<close> is called; a non-nil error is logged
  (\<open>log.Printf("cleanup failed for %s: %v", cleanup.name, err)\<close>) and the loop goes on.
  The state is the world together with the log.
\<close>

fun run_funcs :: "'s cleanupFunc list \<Rightarrow> 's \<times> error list \<Rightarrow> 's \<times> error list" where
  "run_funcs [] w = w"
| "run_funcs (c # cs) (s, lg) =
     (case fn c s of
        (None, s') \<Rightarrow> run_funcs cs (s', lg)
      | (Some err, s') \<Rightarrow>
          run_funcs cs (s', lg @ [Errorf ''cleanup failed for %s: %v'' [S (name c), W err]]))"

text \<open>\<open>Execute\<close> ranges over \<open>m.funcs\<close> and never assigns to it: the ledger comes back as it was.\<close>

definition Execute :: "'s CleanupManager \<Rightarrow> 's \<times> error list \<Rightarrow> 's CleanupManager \<times> ('s \<times> error list)" where
  "Execute m w = (m, run_funcs (funcs m) w)"

text \<open>
  The release actions of cleanup\_test.go: each appends its own name to a shared slice
  (\<open>order = append(order, "first")\<close>) and returns a fixed result, nil or an error.
\<close>

definition recording :: "string \<Rightarrow> error option \<Rightarrow> string list \<Rightarrow> error option \<times> string list" where
  "recording n e order = (e, order @ [n])"

text \<open>
  Pushing a sequence of entries with Add, first to last; and the same for recording
  actions, each with its own name and result.
\<close>

definition push_all :: "(string \<times> ('s \<Rightarrow> error option \<times> 's)) list \<Rightarrow> 's CleanupManager \<Rightarrow> 's CleanupManager" where
  "push_all es m = foldl (\<lambda>m' (n, f). Add n f m') m es"

definition add_all :: "(string \<times> error option) list \<Rightarrow> string list CleanupManager \<Rightarrow> string list CleanupManager" where
  "add_all es m = push_all (map (\<lambda>(n, e). (n, recording n e)) es) m"

section \<open>Configuration (internal/config.go)\<close>

text \<open>\<open>strings.Cut(s, "=")\<close>: the text before and after the first \<open>=\<close>, or not found.\<close>

fun Cut :: "string \<Rightarrow> (string \<times> string) option" where
  "Cut [] = None"
| "Cut (c # cs) =
     (if c = CHR ''='' then Some ([], cs)
      else (case Cut cs of None \<Rightarrow> None | Some (k, v) \<Rightarrow> Some (c # k, v)))"

text \<open>
  The variables that the flag set writes to: the two \<open>stringSlice\<close> values, whose
  \<open>Set\<close> appends, the two string variables, and the flag set's own \<open>args\<close>, the
  arguments not yet consumed.
\<close>

record FlagSet =
  additionalEnv :: "string list"
  volumes :: "string list"
  dockerfilePath :: string
  network :: string
  args :: "string list"

text \<open>
  \<open>fs.Var(&additionalEnv, "env", ...)\<close>, \<open>fs.Var(&volumes, "volume", ...)\<close>,
  \<open>fs.StringVar(&dockerfilePath, "dockerfile", "", ...)\<close> and
  \<open>fs.StringVar(&network, "network", "default", ...)\<close>: the defined flags with what
  setting each does. None of them is a boolean flag and none of the \<open>Set\<close> methods fails.
\<close>

definition NewFlagSet :: FlagSet where
  "NewFlagSet = \<lparr>additionalEnv = [], volumes = [], dockerfilePath = [], network = ''default'', args = []\<rparr>"

definition formal :: "string \<Rightarrow> (string \<Rightarrow> FlagSet \<Rightarrow> FlagSet) option" where
  "formal n =
     (if n = ''env'' then Some (\<lambda>v f. f\<lparr>additionalEnv := additionalEnv f @ [v]\<rparr>)
      else if n = ''volume'' then Some (\<lambda>v f. f\<lparr>volumes := volumes f @ [v]\<rparr>)
      else if n = ''dockerfile'' then Some (\<lambda>v f. f\<lparr>dockerfilePath := v\<rparr>)
      else if n = ''network'' then Some (\<lambda>v f. f\<lparr>network := v\<rparr>)
      else None)"

text \<open>
  The standard library's \<open>(*FlagSet).parseOne\<close>. It returns \<open>(true, nil)\<close> after one
  flag, \<open>(false, nil)\<close> at the first argument that is no flag, and \<open>(false, err)\<close> on a
  flag it cannot take.
\<close>

datatype parsed = Seen | Done | Failed error

text \<open>
  \<open>for i := 1; i < len(name); i++ { if name[i] == '=' { ... } }\<close>: a name is split at
  its first \<open>=\<close> that is not its first byte.
\<close>

definition splitValue :: "string \<Rightarrow> string \<times> string option" where
  "splitValue nm =
     (case nm of [] \<Rightarrow> ([], None)
      | c # cs \<Rightarrow> (case Cut cs of None \<Rightarrow> (nm, None) | Some (k, v) \<Rightarrow> (c # k, Some v)))"

definition parseOne :: "FlagSet \<Rightarrow> parsed \<times> FlagSet" where
  "parseOne f =
     (case args f of
        [] \<Rightarrow> (Done, f)
      | s # rest \<Rightarrow>
          if length s < 2 \<or> s ! 0 \<noteq> CHR ''-'' then (Done, f)
          else if s ! 1 = CHR ''-'' \<and> length s = 2 then (Done, f\<lparr>args := rest\<rparr>)
          else
            let nm = drop (if s ! 1 = CHR ''-'' then 2 else 1) s in
            if nm = [] \<or> hd nm = CHR ''-'' \<or> hd nm = CHR ''='' then
              (Failed (Errorf ''bad flag syntax: %s'' [S s]), f)
            else
              let (nm', value) = splitValue nm in
              (case formal nm' of
                 None \<Rightarrow>
                   if nm' = ''help'' \<or> nm' = ''h''
                   then (Failed (ErrorString ''flag: help requested''), f\<lparr>args := rest\<rparr>)
                   else (Failed (Errorf ''flag provided but not defined: -%s'' [S nm']), f\<lparr>args := rest\<rparr>)
               | Some set_flag \<Rightarrow>
                   (case value of
                      Some v \<Rightarrow> (Seen, set_flag v (f\<lparr>args := rest\<rparr>))
                    | None \<Rightarrow>
                        (case rest of
                           [] \<Rightarrow> (Failed (Errorf ''flag needs an argument: -%s'' [S nm']), f\<lparr>args := rest\<rparr>)
                         | v # rest' \<Rightarrow> (Seen, set_flag v (f\<lparr>args := rest'\<rparr>))))))"

lemma formal_args: "formal n = Some g \<Longrightarrow> args (g v f) = args f"
  by (auto simp: formal_def split: if_splits)

lemma parseOne_Seen_shorter:
  "parseOne f = (Seen, f') \<Longrightarrow> length (args f') < length (args f)"
  by (auto simp: parseOne_def Let_def formal_args split: list.splits if_splits prod.splits option.splits)

text \<open>
  \<open>(*FlagSet).Parse\<close> with \<open>ContinueOnError\<close>: parseOne is repeated while it sees a flag;
  the first error is returned.
\<close>

function parseLoop :: "FlagSet \<Rightarrow> error option \<times> FlagSet" where
  "parseLoop f =
     (case parseOne f of
        (Seen, f') \<Rightarrow> parseLoop f'
      | (Done, f') \<Rightarrow> (None, f')
      | (Failed e, f') \<Rightarrow> (Some e, f'))"
  by pat_completeness auto
termination
  by (relation "measure (\<lambda>f. length (args f))") (auto dest: parseOne_Seen_shorter [OF sym])

declare parseLoop.simps [simp del]

definition Parse :: "string list \<Rightarrow> FlagSet \<Rightarrow> error option \<times> FlagSet" where
  "Parse arguments f = parseLoop (f\<lparr>args := arguments\<rparr>)"


text \<open>
  The fixed settings of config.go. A \<open>time.Duration\<close> is an \<open>int64\<close> count of
  nanoseconds.
\<close>

type_synonym Duration = "64 word"

definition Millisecond :: Duration where
  "Millisecond = 1000000"

definition DefaultStopTimeout :: int where
  "DefaultStopTimeout = 10"

definition DefaultTTYRetries :: int where
  "DefaultTTYRetries = 10"

definition DefaultRetryDelay :: Duration where
  "DefaultRetryDelay = 10 * Millisecond"

record GitUserConfig =
  Name :: string
  Email :: string

record Config =
  ImageName :: string
  WorkingDir :: string
  StopTimeout :: int
  TTYRetries :: int
  RetryDelay :: Duration
  GitUser :: GitUserConfig
  Args :: "string list"
  Env :: "string list"
  Volumes :: "string list"
  DockerfilePath :: string
  Network :: string

text \<open>
  The map \<open>lookup\<close> of ParseConfig: every \<open>KEY=VALUE\<close> of the host environment is
  stored under its key, a later one over an earlier one; an entry without \<open>=\<close> is
  dropped.
\<close>

definition lookupOf :: "string list \<Rightarrow> (string \<rightharpoonup> string)" where
  "lookupOf environment =
     foldl (\<lambda>m variable. case Cut variable of None \<Rightarrow> m | Some (k, v) \<Rightarrow> m(k \<mapsto> v))
           Map.empty environment"

definition ParseConfig :: "string list \<Rightarrow> string list \<Rightarrow> Config" where
  "ParseConfig arguments environment =
     (let lookup = lookupOf environment;
          fs = snd (Parse arguments NewFlagSet);
          programArgs = args fs;
          env0 = [''TERM='' @ (case lookup ''TERM'' of None \<Rightarrow> ''xterm-256color'' | Some v \<Rightarrow> v)];
          env1 = env0 @ [''COLORTERM='' @ (case lookup ''COLORTERM'' of None \<Rightarrow> ''truecolor'' | Some v \<Rightarrow> v)];
          env2 = env1 @ [''ANTHROPIC_API_KEY='' @ (case lookup ''ANTHROPIC_API_KEY'' of None \<Rightarrow> [] | Some v \<Rightarrow> v)];
          env3 = env2 @ [''SSH_AUTH_SOCK=/run/host-services/ssh-auth.sock''];
          env4 = env3 @ additionalEnv fs;
          defaultVolumes = [''/var/run/docker.sock:/var/run/docker.sock'',
                            ''/run/host-services/ssh-auth.sock:/run/host-services/ssh-auth.sock''];
          allVolumes = defaultVolumes @ volumes fs
      in \<lparr>ImageName = ''contagent:latest'',
          WorkingDir = ''/app'',
          StopTimeout = DefaultStopTimeout,
          TTYRetries = DefaultTTYRetries,
          RetryDelay = DefaultRetryDelay,
          GitUser = \<lparr>Name = ''Contagent'', Email = ''contagent@example.com''\<rparr>,
          Args = programArgs,
          Env = env4,
          Volumes = allVolumes,
          DockerfilePath = dockerfilePath fs,
          Network = network fs\<rparr>)"


text \<open>
  An argument vector in the shape the command line documents: flags, each written as
  its name after one or two dashes with its value as the next argument or after \<open>=\<close>,
  then the command.
\<close>

datatype flagName = EnvFlag | VolumeFlag | DockerfileFlag | NetworkFlag

fun flagText :: "flagName \<Rightarrow> string" where
  "flagText EnvFlag = ''env''"
| "flagText VolumeFlag = ''volume''"
| "flagText DockerfileFlag = ''dockerfile''"
| "flagText NetworkFlag = ''network''"

datatype flagForm = Dash | DashDash | DashEq | DashDashEq

fun flagArgs :: "flagForm \<times> flagName \<times> string \<Rightarrow> string list" where
  "flagArgs (Dash, n, v) = [''-'' @ flagText n, v]"
| "flagArgs (DashDash, n, v) = [''--'' @ flagText n, v]"
| "flagArgs (DashEq, n, v) = [''-'' @ flagText n @ ''='' @ v]"
| "flagArgs (DashDashEq, n, v) = [''--'' @ flagText n @ ''='' @ v]"

definition valuesOf :: "flagName \<Rightarrow> (flagForm \<times> flagName \<times> string) list \<Rightarrow> string list" where
  "valuesOf n fl = map (\<lambda>(_, _, v). v) (filter (\<lambda>(_, n', _). n' = n) fl)"

text \<open>The command starts with a word that flag parsing takes for no flag.\<close>

definition isCommand :: "string list \<Rightarrow> bool" where
  "isCommand cmd = (case cmd of [] \<Rightarrow> True | s # _ \<Rightarrow> length s < 2 \<or> s ! 0 \<noteq> CHR ''-'')"

text \<open>What one flag of such a vector does to the flag set's variables.\<close>

definition setFlag :: "FlagSet \<Rightarrow> flagForm \<times> flagName \<times> string \<Rightarrow> FlagSet" where
  "setFlag f x = (case x of (_, n, v) \<Rightarrow> the (formal (flagText n)) v f)"

text \<open>A variable of the host environment, or a default where the host has none.\<close>

definition hostOr :: "string list \<Rightarrow> string \<Rightarrow> string \<Rightarrow> string" where
  "hostOr environment k d = (case lookupOf environment k of None \<Rightarrow> d | Some v \<Rightarrow> v)"

section \<open>Rendering an error\<close>

fun decimalNat :: "nat \<Rightarrow> string" where
  "decimalNat n =
     (if n < 10 then [char_of (48 + n)]
      else decimalNat (n div 10) @ [char_of (48 + n mod 10)])"

declare decimalNat.simps [simp del]

definition decimal :: "int \<Rightarrow> string" where
  "decimal i = (if i < 0 then CHR ''-'' # decimalNat (nat (- i)) else decimalNat (nat i))"

text \<open>
  \<open>fmt.Sprintf\<close> on arguments already rendered: each verb (\<open>%\<close> and the byte after it)
  is replaced by the next argument, \<open>%%\<close> by a percent sign; a verb without an
  argument and a \<open>%\<close> at the very end are marked as Go marks them. Every format of
  this program has as many verbs as arguments.
\<close>

fun format :: "string \<Rightarrow> string list \<Rightarrow> string" where
  "format [] as = []"
| "format [c] as = (if c = CHR ''%'' then ''%!(NOVERB)'' else [c])"
| "format (c # v # f) as =
     (if c = CHR ''%'' then
        (if v = CHR ''%'' then CHR ''%'' # format f as
         else (case as of
                 [] \<Rightarrow> ''%!'' @ [v] @ ''(MISSING)'' @ format f []
               | a # as' \<Rightarrow> a @ format f as'))
      else c # format (v # f) as)"

text \<open>
  The \<open>Error()\<close> text of an error. \<open>quote\<close> is \<open>strconv.Quote\<close>, the rendering of
  \<open>%q\<close>: it rests on the Unicode tables of the standard library and is a parameter.
\<close>

primrec Error :: "(string \<Rightarrow> string) \<Rightarrow> error \<Rightarrow> string"
  and ErrorArg :: "(string \<Rightarrow> string) \<Rightarrow> fmtArg \<Rightarrow> string" where
  "Error quote (ErrorString s) = s"
| "Error quote (Errorf f as) = format f (map (ErrorArg quote) as)"
| "ErrorArg quote (S s) = s"
| "ErrorArg quote (Q s) = quote s"
| "ErrorArg quote (D i) = decimal i"
| "ErrorArg quote (W e) = Error quote e"

section \<open>Output sink (internal/writer.go)\<close>

text \<open>
  The Writer interface as the sequence of calls made on it. A \<open>Fatalf\<close> of the standard
  writer also ends the process; here it is the event alone.
\<close>

datatype written =
    Print string
  | Println string
  | Printf string "fmtArg list"
  | Warningf string "fmtArg list"
  | Fatalf string "fmtArg list"

section \<open>Container engine driver (package docker: Client and Container)\<close>

record Image =
  Name :: string

record ImageBuildOptions =
  Dockerfile :: string
  Tags :: "string list"
  Remove :: bool

text \<open>
  One value of the build response: the anonymous struct \<open>output\<close> that each turn of the
  loop declares afresh and decodes into, with \<open>ErrorDetail.Code\<close> and
  \<open>ErrorDetail.Message\<close>; or a value that \<open>Decode\<close> rejects.
\<close>

record buildOutput =
  Stream :: string
  Code :: int
  Message :: string

datatype decoded = Decoded buildOutput | Malformed error

record ContainerConfig =
  Image :: string
  Cmd :: "string list"
  Tty :: bool
  OpenStdin :: bool
  AttachStdin :: bool
  AttachStdout :: bool
  AttachStderr :: bool
  Env :: "string list"
  WorkingDir :: string

record HostConfig =
  ExtraHosts :: "string list"
  Binds :: "string list"
  NetworkMode :: string

record ContainerCreateOptions =
  Config :: ContainerConfig
  HostConfig :: HostConfig
  Name :: string

text \<open>
  The DockerClient interface, as the answers of the engine: a real client or, as in the
  tests, a double made of functions. \<open>ImageBuild\<close> takes the bytes of the Dockerfile,
  which reach it as the single entry \<open>Dockerfile\<close> (mode 0644) of a tar stream, and
  answers with the values of the response body in order.
\<close>

record DockerClient =
  ImageBuild :: "string \<Rightarrow> ImageBuildOptions \<Rightarrow> error + decoded list"
  ContainerCreate :: "ContainerCreateOptions \<Rightarrow> error + string"
  ContainerStop :: "string \<Rightarrow> int \<Rightarrow> error option"
  ContainerAttach :: "string \<Rightarrow> error option"

text \<open>
  What BuildImage meets outside the engine: the result of \<open>os.ReadFile\<close>; which case of
  the \<open>select\<close> after ImageBuild fires (a value from \<open>errChan\<close>, the context's \<open>Done\<close>,
  or \<open>default\<close>); and whether the context is done at the \<open>i\<close>-th turn of the loop.
\<close>

datatype selected = FromErrChan "error option" | FromCtxDone | Default

record buildEnv =
  ReadFile :: "string \<Rightarrow> error + string"
  tarSelect :: selected
  ctxDone :: "nat \<Rightarrow> bool"
  ctxErr :: error

text \<open>
  \<open>for decoder.More() { ... }\<close>: the context is looked at, a value is decoded, a nonzero
  error code returns the build error, and otherwise the stream fragment goes to the sink.
\<close>

fun decodeLoop :: "buildEnv \<Rightarrow> nat \<Rightarrow> decoded list \<Rightarrow> written list \<Rightarrow> error option \<times> written list" where
  "decodeLoop e i [] w = (None, w)"
| "decodeLoop e i (x # xs) w =
     (if ctxDone e i then (Some (ctxErr e), w)
      else (case x of
              Malformed err \<Rightarrow>
                (Some (Errorf ''failed to decode build output: %w\<newline>Docker may have returned malformed JSON'' [W err]), w)
            | Decoded out \<Rightarrow>
                if Code out \<noteq> 0 then
                  (Some (Errorf ''docker build failed: %s\<newline>Check your Dockerfile syntax and base image availability''
                           [S (Message out)]), w)
                else decodeLoop e (Suc i) xs (w @ [Print (Stream out)])))"

definition BuildImage :: "DockerClient \<Rightarrow> buildEnv \<Rightarrow> string \<Rightarrow> string \<Rightarrow> written list \<Rightarrow> (error + Image) \<times> written list" where
  "BuildImage c e dockerfilePath' imageName w =
     (case ReadFile e dockerfilePath' of
        Inl err \<Rightarrow>
          (Inl (Errorf ''failed to read Dockerfile at %q: %w\<newline>Check that the file exists and is readable''
                  [Q dockerfilePath', W err]), w)
      | Inr dockerfile \<Rightarrow>
          (case ImageBuild c dockerfile \<lparr>Dockerfile = ''Dockerfile'', Tags = [imageName], Remove = True\<rparr> of
             Inl err \<Rightarrow>
               (Inl (Errorf ''failed to build image %q: %w\<newline>Check Docker daemon logs for details''
                       [Q imageName, W err]), w)
           | Inr body \<Rightarrow>
               (case tarSelect e of
                  FromErrChan (Some err) \<Rightarrow> (Inl err, w)
                | FromCtxDone \<Rightarrow> (Inl (ctxErr e), w)
                | _ \<Rightarrow>
                    (case decodeLoop e 0 body w of
                       (Some err, w') \<Rightarrow> (Inl err, w')
                     | (None, w') \<Rightarrow> (Inr \<lparr>Image.Name = imageName\<rparr>, w')))))"

record Container =
  client :: DockerClient
  ID :: string
  Name :: string
  StopTimeout :: int
  TTYRetries :: int
  RetryDelay :: Duration

definition CreateContainer ::
  "DockerClient \<Rightarrow> string \<Rightarrow> Image \<Rightarrow> string list \<Rightarrow> string list \<Rightarrow> string list \<Rightarrow> string \<Rightarrow> string
     \<Rightarrow> int \<Rightarrow> int \<Rightarrow> Duration \<Rightarrow> error + Container" where
  "CreateContainer c sessionID image' args' env volumes' workingDir network' stopTimeout ttyRetries retryDelay =
     (case ContainerCreate c
             \<lparr>Config = \<lparr>Image = Image.Name image',
                        Cmd = args',
                        Tty = True,
                        OpenStdin = True,
                        AttachStdin = True,
                        AttachStdout = True,
                        AttachStderr = True,
                        Env = env,
                        WorkingDir = workingDir\<rparr>,
              HostConfig = \<lparr>ExtraHosts = [''host.docker.internal:host-gateway''],
                            Binds = volumes',
                            NetworkMode = network'\<rparr>,
              Name = sessionID\<rparr> of
        Inl err \<Rightarrow>
          Inl (Errorf ''failed to create container %q from image %q: %w\<newline>Ensure image exists and container config is valid''
                 [Q sessionID, Q (Image.Name image'), W err])
      | Inr response_ID \<Rightarrow>
          Inr \<lparr>client = c,
               ID = response_ID,
               Name = sessionID,
               StopTimeout = stopTimeout,
               TTYRetries = ttyRetries,
               RetryDelay = retryDelay\<rparr>)"

text \<open>
  Wait. The \<open>select\<close> takes whichever of its three channels is ready: a value from
  \<open>wait.Error\<close> (which may be nil), a status from \<open>wait.Result\<close>, or a signal from
  \<open>sigChan\<close>. Which one is the input; the result is the returned error, the requests made
  to the engine and what went to the sink.
\<close>

datatype waitSelect = WaitError "error option" | WaitResult int | Signal

datatype request = ContainerWaitRequest string string | ContainerStopRequest string int

definition WaitConditionNotRunning :: string where
  "WaitConditionNotRunning = ''not-running''"

definition Wait :: "Container \<Rightarrow> waitSelect \<Rightarrow> error option \<times> request list \<times> written list" where
  "Wait c sel =
     (let wait = [ContainerWaitRequest (ID c) WaitConditionNotRunning] in
      case sel of
        WaitError (Some err) \<Rightarrow>
          (Some (Errorf ''failed to wait for container %q: %w\<newline>Docker daemon may have encountered an error''
                   [Q (Container.Name c), W err]), wait, [])
      | WaitError None \<Rightarrow> (None, wait, [])
      | WaitResult status \<Rightarrow>
          (None, wait, [Printf ''\<newline>Container exited with status: %d\<newline>'' [D status]])
      | Signal \<Rightarrow>
          (let timeout = StopTimeout c in
           (None,
            wait @ [ContainerStopRequest (ID c) timeout],
            Println ''\<newline>Received signal, stopping container...''
              # (case ContainerStop (client c) (ID c) timeout of
                   None \<Rightarrow> []
                 | Some err \<Rightarrow> [Warningf ''failed to stop container: %v'' [W err]]))))"

text \<open>
  An engine double in the manner of mock\_client\_test.go, answering a build with a given
  body and a stop request with a given result, and surroundings in which nothing fails.
\<close>

definition stubClient :: "decoded list \<Rightarrow> error option \<Rightarrow> DockerClient" where
  "stubClient body stop =
     \<lparr>ImageBuild = (\<lambda>_ _. Inr body),
      ContainerCreate = (\<lambda>_. Inr ''container123''),
      ContainerStop = (\<lambda>_ _. stop),
      ContainerAttach = (\<lambda>_. None)\<rparr>"

definition stubBuildEnv :: buildEnv where
  "stubBuildEnv =
     \<lparr>ReadFile = (\<lambda>_. Inr ''FROM alpine:latest''),
      tarSelect = Default,
      ctxDone = (\<lambda>_. False),
      ctxErr = ErrorString ''context canceled''\<rparr>"

section \<open>Terminal bridge (internal/docker/tty.go, Container.Attach)\<close>

record TTY =
  id' :: string
  maxRetries :: int
  retryDelay :: Duration

definition NewTTY :: "string \<Rightarrow> int \<Rightarrow> Duration \<Rightarrow> TTY" where
  "NewTTY i n d = \<lparr>id' = i, maxRetries = n, retryDelay = d\<rparr>"

text \<open>
  What a TTY meets. Its calls of Resize are numbered: call 0 is the one Monitor makes
  itself, call \<open>k\<close> is the one of the \<open>k\<close>-th turn of the retry loop. \<open>GetTtySize k\<close> is the
  height and width the terminal reports at call \<open>k\<close>, \<open>ContainerResize k\<close> the engine's
  answer to the request of call \<open>k\<close>, and \<open>retryCtxDone r\<close> tells whether, in the turn
  with loop variable \<open>retry = r\<close>, the context is done before the timer fires.
\<close>

record ttyEnv =
  GetTtySize :: "nat \<Rightarrow> nat \<times> nat"
  ContainerResize :: "nat \<Rightarrow> error option"
  retryCtxDone :: "nat \<Rightarrow> bool"

text \<open>What a task does, in order: wait for a timer, ask the engine to resize, write to the sink.\<close>

datatype ttyEvent = After Duration | ContainerResizeRequest string nat nat | Sink written

definition Resize :: "TTY \<Rightarrow> ttyEnv \<Rightarrow> nat \<Rightarrow> error option \<times> ttyEvent list" where
  "Resize t e k =
     (case GetTtySize e k of
        (height, width) \<Rightarrow>
          if height = 0 \<and> width = 0 then (None, [])
          else (ContainerResize e k, [ContainerResizeRequest (id' t) height width]))"

text \<open>
  The retry task of Monitor, from the turn with loop variable \<open>retry\<close> on, with \<open>n\<close>
  turns left and \<open>err\<close> the task's own error variable:
  \<open>for retry := range t.maxRetries { select { case <-ctx.Done(): return;
  case <-time.After(time.Duration(retry+1) * t.retryDelay):
  if err = t.Resize(ctx); err == nil { return } } }\<close> and then
  \<open>if err != nil { t.writer.Fatalf("failed to resize tty: %v", err) }\<close>.
  The product is one of \<open>int64\<close> values.
\<close>

fun retryLoop :: "TTY \<Rightarrow> ttyEnv \<Rightarrow> nat \<Rightarrow> nat \<Rightarrow> error option \<Rightarrow> ttyEvent list" where
  "retryLoop t e retry 0 err =
     (case err of None \<Rightarrow> [] | Some x \<Rightarrow> [Sink (Fatalf ''failed to resize tty: %v'' [W x])])"
| "retryLoop t e retry (Suc n) err =
     (if retryCtxDone e retry then []
      else After (of_nat (retry + 1) * retryDelay t)
             # (case Resize t e (retry + 1) of
                  (None, evs) \<Rightarrow> evs
                | (Some x, evs) \<Rightarrow> evs @ retryLoop t e (retry + 1) n (Some x)))"

text \<open>
  Monitor: the returned error (always nil), what its own call of Resize did, and the
  retry task if one was started, as the events that task goes through. The task
  listening for SIGWINCH, which calls Resize and drops the result, is left out.
\<close>

definition Monitor :: "TTY \<Rightarrow> ttyEnv \<Rightarrow> error option \<times> ttyEvent list \<times> ttyEvent list option" where
  "Monitor t e =
     (case Resize t e 0 of
        (err, evs) \<Rightarrow>
          (None, evs,
           if err \<noteq> None then Some (retryLoop t e 0 (nat (maxRetries t)) None) else None))"

text \<open>
  What Attach meets besides the engine client: the engine's answer to Attach's own
  resize request, the environment of the TTY, and the results of switching standard
  input and standard output to raw mode.
\<close>

record attachEnv =
  attachResize :: "error option"
  tty :: ttyEnv
  SetRawTerminalIn :: "error option"
  SetRawTerminalOut :: "error option"

text \<open>
  Attach up to its return: the returned error, what went to the sink, and the result
  of Monitor. The two copying tasks it starts are left out.
\<close>

definition Attach ::
  "Container \<Rightarrow> attachEnv \<Rightarrow> error option \<times> written list \<times> (ttyEvent list \<times> ttyEvent list option)" where
  "Attach c e =
     (let w = (case attachResize e of
                 None \<Rightarrow> []
               | Some err \<Rightarrow> [Warningf ''failed to resize tty: %v'' [W err]]);
          t = NewTTY (ID c) (TTYRetries c) (RetryDelay c)
      in case Monitor t (tty e) of
           (Some err, m) \<Rightarrow> (Some (Errorf ''failed to monitor tty size: %w'' [W err]), w, m)
         | (None, m) \<Rightarrow>
             (case SetRawTerminalIn e of
                Some err \<Rightarrow>
                  (Some (Errorf ''failed to set stdin to raw terminal mode: %w\<newline>Your terminal may not support TTY operations''
                           [W err]), w, m)
              | None \<Rightarrow>
                  (case ContainerAttach (client c) (ID c) of
                     Some err \<Rightarrow>
                       (Some (Errorf ''failed to attach to container %q: %w\<newline>Container may have exited prematurely or Docker API is unreachable''
                                [Q (Container.Name c), W err]), w, m)
                   | None \<Rightarrow>
                       (case SetRawTerminalOut e of
                          Some err \<Rightarrow>
                            (Some (Errorf ''failed to set stdout to raw terminal mode: %w\<newline>Your terminal may not support TTY operations''
                                     [W err]), w, m)
                        | None \<Rightarrow> (None, w, m)))))"

text \<open>
  The retry schedule in the words of the specification: up to \<open>N\<close> attempts, attempt \<open>k\<close>
  after a delay of \<open>k\<close> times the base delay; the attempts stop with the first that
  succeeds; when all \<open>N\<close> have failed, a fatal message with the last error follows.
\<close>

definition failed :: "TTY \<Rightarrow> ttyEnv \<Rightarrow> nat \<Rightarrow> bool" where
  "failed t e k = (fst (Resize t e k) \<noteq> None)"

definition attemptsFrom :: "TTY \<Rightarrow> ttyEnv \<Rightarrow> nat \<Rightarrow> nat \<Rightarrow> nat list" where
  "attemptsFrom t e r n =
     (let fs = takeWhile (failed t e) [Suc r ..< Suc (r + n)]
      in if length fs < n then fs @ [Suc (r + length fs)] else fs)"

definition retrySchedule :: "TTY \<Rightarrow> ttyEnv \<Rightarrow> ttyEvent list" where
  "retrySchedule t e =
     (let N = nat (maxRetries t) in
      concat (map (\<lambda>k. After (of_nat k * retryDelay t) # snd (Resize t e k)) (attemptsFrom t e 0 N))
      @ (if 0 < N \<and> list_all (failed t e) [1 ..< Suc N]
         then [Sink (Fatalf ''failed to resize tty: %v'' [W (the (fst (Resize t e N)))])]
         else []))"

text \<open>What the loop leaves when it runs out of turns: the fatal message, if the last error is set.\<close>

definition fatalAfter :: "TTY \<Rightarrow> ttyEnv \<Rightarrow> nat \<Rightarrow> nat \<Rightarrow> error option \<Rightarrow> ttyEvent list" where
  "fatalAfter t e r n err =
     (if list_all (failed t e) [Suc r ..< Suc (r + n)]
      then (case (if n = 0 then err else fst (Resize t e (r + n))) of
              None \<Rightarrow> []
            | Some x \<Rightarrow> [Sink (Fatalf ''failed to resize tty: %v'' [W x])])
      else [])"

text \<open>
  A terminal of 24 lines and 80 columns and an engine that rejects the first \<open>n\<close>
  resize requests; the surroundings of Attach with that terminal, in which Attach's own
  resize request fails too; and a container handle with a given retry count.
\<close>

definition flakyTty :: "nat \<Rightarrow> ttyEnv" where
  "flakyTty n =
     \<lparr>GetTtySize = (\<lambda>_. (24, 80)),
      ContainerResize = (\<lambda>k. if k < n then Some (ErrorString ''container is not running'') else None),
      retryCtxDone = (\<lambda>_. False)\<rparr>"

definition flakyAttach :: "nat \<Rightarrow> attachEnv" where
  "flakyAttach n =
     \<lparr>attachResize = Some (ErrorString ''container is not running''),
      tty = flakyTty n,
      SetRawTerminalIn = None,
      SetRawTerminalOut = None\<rparr>"

text \<open>
  A terminal that reports no size, as a standard output that is not a terminal does,
  with an engine that rejects every resize request, Attach's own included.
\<close>

definition blindTty :: ttyEnv where
  "blindTty =
     \<lparr>GetTtySize = (\<lambda>_. (0, 0)),
      ContainerResize = (\<lambda>_. Some (ErrorString ''height and width must be greater than 0'')),
      retryCtxDone = (\<lambda>_. False)\<rparr>"

definition blindAttach :: attachEnv where
  "blindAttach =
     \<lparr>attachResize = Some (ErrorString ''height and width must be greater than 0''),
      tty = blindTty,
      SetRawTerminalIn = None,
      SetRawTerminalOut = None\<rparr>"

definition handle :: "int \<Rightarrow> Container" where
  "handle n =
     \<lparr>client = stubClient [] None, ID = ''container123'', Name = ''contagent-1234'',
      StopTimeout = 10, TTYRetries = n, RetryDelay = 10000000\<rparr>"

section \<open>Paths (the standard library's path/filepath, with separator \<open>/\<close>)\<close>

text \<open>
  The program runs where \<open>syscall.SIGWINCH\<close> exists, so the separator is \<open>/\<close>.
  \<open>splitSlash\<close> is \<open>strings.Split(s, "/")\<close> and \<open>joinSlash\<close> is
  \<open>strings.Join(elems, "/")\<close>.
\<close>

fun splitSlash :: "string \<Rightarrow> string list" where
  "splitSlash [] = [[]]"
| "splitSlash (c # cs) =
     (if c = CHR ''/'' then [] # splitSlash cs
      else (case splitSlash cs of [] \<Rightarrow> [[c]] | x # xs \<Rightarrow> (c # x) # xs))"

fun joinSlash :: "string list \<Rightarrow> string" where
  "joinSlash [] = []"
| "joinSlash [x] = x"
| "joinSlash (x # y # ys) = x @ CHR ''/'' # joinSlash (y # ys)"

text \<open>
  \<open>filepath.Clean\<close>, element by element: an empty element and \<open>.\<close> are dropped; \<open>..\<close>
  removes the element before it when there is one that is not itself a kept \<open>..\<close>,
  is kept at the front of a path that is not rooted, and is dropped at the root; any
  other element is kept. Nothing left gives \<open>.\<close>, or \<open>/\<close> for a rooted path.
\<close>

definition cleanStep :: "bool \<Rightarrow> string list \<Rightarrow> string \<Rightarrow> string list" where
  "cleanStep rooted out c =
     (if c = [] \<or> c = ''.'' then out
      else if c = ''..'' then
        (if out \<noteq> [] \<and> last out \<noteq> ''..'' then butlast out
         else if \<not> rooted then out @ [''..'']
         else out)
      else out @ [c])"

definition Clean :: "string \<Rightarrow> string" where
  "Clean path =
     (if path = [] then ''.''
      else
        let rooted = (hd path = CHR ''/'');
            out = foldl (cleanStep rooted) [] (splitSlash path)
        in if rooted then CHR ''/'' # joinSlash out
           else if out = [] then ''.''
           else joinSlash out)"

text \<open>
  \<open>filepath.Join\<close>: the elements from the first non-empty one on, joined with the
  separator and cleaned; the empty string when every element is empty.
\<close>

definition Join :: "string list \<Rightarrow> string" where
  "Join elem =
     (case dropWhile (\<lambda>e. e = []) elem of
        [] \<Rightarrow> []
      | es \<Rightarrow> Clean (joinSlash es))"

section \<open>Loopback source-control server (package git: NewServer)\<close>

text \<open>
  What NewServer asks of the host: \<open>filepath.Abs\<close>; \<open>os.Stat\<close>, of which the code only
  asks whether the error satisfies \<open>os.IsNotExist\<close>; \<open>net.Listen("tcp", "127.0.0.1:0")\<close>,
  which gives an error or a listener with its address; \<open>exec.LookPath\<close>;
  \<open>net.SplitHostPort\<close> and \<open>strconv.ParseInt\<close>.
\<close>

datatype statResult = StatOk | StatNotExist | StatOtherError error

record Listener =
  fd :: nat
  Addr :: string

record serverEnv =
  Abs :: "string \<Rightarrow> error + string"
  Stat :: "string \<Rightarrow> statResult"
  Listen :: "error + Listener"
  LookPath :: "string \<Rightarrow> error + string"
  SplitHostPort :: "string \<Rightarrow> error + string \<times> string"
  ParseInt :: "string \<Rightarrow> error + int"

text \<open>The sockets of the process: the listeners that are open, and those being served.\<close>

record netState =
  listening :: "nat list"
  serving :: "nat list"

record Server =
  listener :: Listener
  port :: int

text \<open>
  NewServer. On a failure of \<open>filepath.Abs\<close> the variable \<open>path\<close> has already been
  overwritten with the empty result, and that is what the message quotes. The handler
  and the \<open>http.Server\<close> value hold no resource before \<open>Serve\<close> runs; the goroutine
  that runs \<open>server.Serve(listener)\<close> is started before the port is read.
\<close>

definition NewServer :: "serverEnv \<Rightarrow> string \<Rightarrow> netState \<Rightarrow> (error + Server) \<times> netState" where
  "NewServer e path st =
     (case Abs e path of
        Inl err \<Rightarrow>
          (Inl (Errorf ''failed to resolve absolute path for %q: %w\<newline>Check that the path exists and is accessible''
                  [Q [], W err]), st)
      | Inr path' \<Rightarrow>
          if Stat e (Join [path', ''.git'']) = StatNotExist then
            (Inl (Errorf ''not a git repository: %q\<newline>Run 'git init' to initialize a repository or navigate to an existing one''
                    [Q path']), st)
          else
            (case Listen e of
               Inl err \<Rightarrow>
                 (Inl (Errorf ''failed to create TCP listener on localhost: %w\<newline>Another process may be using network resources''
                         [W err]), st)
             | Inr l \<Rightarrow>
                 let st1 = st\<lparr>listening := fd l # listening st\<rparr> in
                 (case LookPath e ''git'' of
                    Inl err \<Rightarrow>
                      (Inl (Errorf ''git binary not found in PATH: %w\<newline>Install git or ensure it's in your PATH environment variable''
                              [W err]), st1)
                  | Inr git \<Rightarrow>
                      let st2 = st1\<lparr>serving := fd l # serving st1\<rparr> in
                      (case SplitHostPort e (Addr l) of
                         Inl err \<Rightarrow>
                           (Inl (Errorf ''failed to split listener host/port: %w'' [W err]), st2)
                       | Inr (host, portString) \<Rightarrow>
                           (case ParseInt e portString of
                              Inl err \<Rightarrow>
                                (Inl (Errorf ''failed to parse listener port: %w'' [W err]), st2)
                            | Inr p \<Rightarrow> (Inr \<lparr>listener = l, port = p\<rparr>, st2))))))"

text \<open>
  A host on which nothing fails unless asked to: \<open>absolute\<close> tells whether the path can be
  made absolute, \<open>repo\<close> whether \<open>.git\<close> exists, \<open>bind\<close> whether the listener can be
  bound, \<open>git\<close> whether the git binary is found.
\<close>

definition host :: "bool \<Rightarrow> bool \<Rightarrow> bool \<Rightarrow> bool \<Rightarrow> serverEnv" where
  "host absolute repo bind git =
     \<lparr>Abs = (\<lambda>p. if absolute then Inr p else Inl (ErrorString ''getwd: no such file or directory'')),
      Stat = (\<lambda>_. if repo then StatOk else StatNotExist),
      Listen = (if bind then Inr \<lparr>fd = 3, Addr = ''127.0.0.1:40123''\<rparr>
                else Inl (ErrorString ''listen tcp 127.0.0.1:0: too many open files'')),
      LookPath = (\<lambda>_. if git then Inr ''/usr/bin/git''
                      else Inl (ErrorString ''exec: git: executable file not found in $PATH'')),
      SplitHostPort = (\<lambda>_. Inr (''127.0.0.1'', ''40123'')),
      ParseInt = (\<lambda>_. Inr 40123)\<rparr>"

section \<open>Orchestrator (main.go): the container-creation step\<close>

text \<open>
  The call of \<open>client.CreateContainer\<close> in \<open>run\<close>, as it is written: after the context,
  the arguments \<open>session.ID()\<close>, \<open>image\<close>, \<open>config.Args\<close>, \<open>config.Env\<close>,
  \<open>config.Volumes\<close>, \<open>config.WorkingDir\<close>, \<open>config.StopTimeout\<close>, \<open>config.TTYRetries\<close>
  and \<open>config.RetryDelay\<close>, each a value of its Go type.
\<close>

datatype argument =
    SessionIDArg string
  | ImageArg Image
  | CommandArg "string list"
  | EnvironmentArg "string list"
  | StringsArg "string list"
  | StringArg string
  | IntArg int
  | DurationArg Duration

definition run_CreateContainer_arguments :: "Config \<Rightarrow> string \<Rightarrow> Image \<Rightarrow> argument list" where
  "run_CreateContainer_arguments config session_ID image' =
     [SessionIDArg session_ID,
      ImageArg image',
      CommandArg (Config.Args config),
      EnvironmentArg (Config.Env config),
      StringsArg (Config.Volumes config),
      StringArg (Config.WorkingDir config),
      IntArg (Config.StopTimeout config),
      IntArg (Config.TTYRetries config),
      DurationArg (Config.RetryDelay config)]"

text \<open>The parameters that CreateContainer declares after the context, in order.\<close>

definition CreateContainer_parameters :: "string list" where
  "CreateContainer_parameters =
     [''sessionID'', ''image'', ''args'', ''env'', ''volumes'', ''workingDir'', ''network'',
      ''stopTimeout'', ''ttyRetries'', ''retryDelay'']"

text \<open>
  Binding a call's arguments to a function's parameters, by position: there is a binding
  only when the call has as many arguments as the function has parameters.
\<close>

definition bind :: "string list \<Rightarrow> argument list \<Rightarrow> (string \<rightharpoonup> argument) option" where
  "bind parameters arguments =
     (if length parameters = length arguments then Some (map_of (zip parameters arguments))
      else None)"

text \<open>
  An engine double that hands the network mode of the create request back as the new
  container's id, as the mock test captures the options it is called with.
\<close>

definition capturingClient :: DockerClient where
  "capturingClient =
     \<lparr>ImageBuild = (\<lambda>_ _. Inr []),
      ContainerCreate = (\<lambda>options. Inr (NetworkMode (HostConfig options))),
      ContainerStop = (\<lambda>_ _. None),
      ContainerAttach = (\<lambda>_. None)\<rparr>"

section \<open>Snapshot pipeline (internal/git/archive.go)\<close>

text \<open>
  \<open>os.FileMode\<close> is a \<open>uint32\<close>; \<open>ModeDir\<close> is its bit 31 and \<open>ModeSymlink\<close> its
  bit 27. A \<open>FileInfo\<close> is what \<open>Lstat\<close> reports of a file.
\<close>

type_synonym FileMode = "32 word"

definition ModeDir :: FileMode where
  "ModeDir = push_bit 31 1"

definition ModeSymlink :: FileMode where
  "ModeSymlink = push_bit 27 1"

record FileInfo =
  Mode :: FileMode
  Size :: int
  ModTime :: int

definition IsDir :: "FileInfo \<Rightarrow> bool" where
  "IsDir info = (and (FileInfo.Mode info) ModeDir \<noteq> 0)"

text \<open>\<open>info.Mode()&os.ModeSymlink != 0\<close>, the test made on every file met.\<close>

definition isSymlink :: "FileInfo \<Rightarrow> bool" where
  "isSymlink info = (and (FileInfo.Mode info) ModeSymlink \<noteq> 0)"

text \<open>
  A \<open>tar.Header\<close> with the fields the program sets; \<open>Typeflag\<close> is a byte, zero when
  not set. \<open>TypeDir\<close> is \<open>'5'\<close> and \<open>TypeSymlink\<close> is \<open>'2'\<close>.
\<close>

record Header =
  Name :: string
  Mode :: int
  Size :: int
  ModTime :: int
  Typeflag :: char

definition TypeDir :: char where
  "TypeDir = CHR ''5''"

definition TypeSymlink :: char where
  "TypeSymlink = CHR ''2''"

text \<open>
  The tar writer on the pipe: the headers written so far, and how many more the reading
  end takes before it is closed (\<open>None\<close>: it reads to the end). Writing to a closed
  pipe is the error of \<open>WriteHeader\<close>.
\<close>

record tarWriter =
  written :: "Header list"
  room :: "nat option"

definition WriteHeader :: "tarWriter \<Rightarrow> Header \<Rightarrow> error option \<times> tarWriter" where
  "WriteHeader tw h =
     (case room tw of
        None \<Rightarrow> (None, tw\<lparr>written := written tw @ [h]\<rparr>)
      | Some 0 \<Rightarrow> (Some (ErrorString ''io: read/write on closed pipe''), tw)
      | Some (Suc n) \<Rightarrow> (None, tw\<lparr>written := written tw @ [h], room := Some n\<rparr>))"

text \<open>
  One call that \<open>filepath.Walk\<close> makes to its function: the names of the directory
  entries that lead from the root of the walk to the file (none for the root itself),
  the file's \<open>FileInfo\<close>, and the error of reading it, if any. \<open>filepath.Rel\<close> from the
  root to such a file is the names joined, or \<open>.\<close> for the root; it cannot fail there.
\<close>

record visit =
  names :: "string list"
  info :: FileInfo
  walkErr :: "error option"

definition Rel :: "visit \<Rightarrow> string" where
  "Rel v = (if names v = [] then ''.'' else joinSlash (names v))"

text \<open>The file system as the program meets it, each answer by path.\<close>

record fsEnv =
  Lstat :: "string \<Rightarrow> error + FileInfo"
  Open :: "string \<Rightarrow> error option"
  Copy :: "string \<Rightarrow> error option"
  MkdirAll :: "string \<Rightarrow> error option"
  copyFile :: "string \<Rightarrow> string \<Rightarrow> error option"

text \<open>\<open>strings.ReplaceAll(s, "\\", "/")\<close>.\<close>

definition slashes :: "string \<Rightarrow> string" where
  "slashes s = map (\<lambda>c. if c = CHR 0x5C then CHR ''/'' else c) s"

text \<open>The two headers that addDirectoryToArchive builds for a file it has walked to.\<close>

definition walkedDirHeader :: "string \<Rightarrow> visit \<Rightarrow> Header" where
  "walkedDirHeader tarPath v =
     \<lparr>Name = slashes (Join [tarPath, Rel v]) @ ''/'',
      Mode = uint (FileInfo.Mode (info v)),
      Size = 0,
      ModTime = FileInfo.ModTime (info v),
      Typeflag = TypeDir\<rparr>"

definition walkedFileHeader :: "string \<Rightarrow> visit \<Rightarrow> Header" where
  "walkedFileHeader tarPath v =
     \<lparr>Name = slashes (Join [tarPath, Rel v]),
      Mode = uint (FileInfo.Mode (info v)),
      Size = FileInfo.Size (info v),
      ModTime = FileInfo.ModTime (info v),
      Typeflag = CHR 0x00\<rparr>"

text \<open>The function that addDirectoryToArchive hands to \<open>filepath.Walk\<close>, on one call.\<close>

definition addToArchive :: "fsEnv \<Rightarrow> string \<Rightarrow> string \<Rightarrow> tarWriter \<Rightarrow> visit \<Rightarrow> error option \<times> tarWriter" where
  "addToArchive fs srcDir tarPath tw v =
     (case walkErr v of
        Some e \<Rightarrow> (Some e, tw)
      | None \<Rightarrow>
          let filePath = Join [srcDir, Rel v] in
          if isSymlink (info v) then (None, tw)
          else if IsDir (info v) then WriteHeader tw (walkedDirHeader tarPath v)
          else
            (case Open fs filePath of
               Some e \<Rightarrow> (Some (Errorf ''failed to open file %s: %w'' [S filePath, W e]), tw)
             | None \<Rightarrow>
                 (case WriteHeader tw (walkedFileHeader tarPath v) of
                    (Some e, tw') \<Rightarrow>
                      (Some (Errorf ''failed to write header for %s: %w'' [S filePath, W e]), tw')
                  | (None, tw') \<Rightarrow>
                      (case Copy fs filePath of
                         Some e \<Rightarrow>
                           (Some (Errorf ''failed to write file %s: %w'' [S filePath, W e]), tw')
                       | None \<Rightarrow> (None, tw')))))"

text \<open>\<open>filepath.Walk\<close> calls the function file after file and stops at its first error.\<close>

fun addDirectoryToArchive :: "fsEnv \<Rightarrow> tarWriter \<Rightarrow> string \<Rightarrow> visit list \<Rightarrow> string \<Rightarrow> error option \<times> tarWriter" where
  "addDirectoryToArchive fs tw srcDir [] tarPath = (None, tw)"
| "addDirectoryToArchive fs tw srcDir (v # vs) tarPath =
     (case addToArchive fs srcDir tarPath tw v of
        (Some e, tw') \<Rightarrow> (Some e, tw')
      | (None, tw') \<Rightarrow> addDirectoryToArchive fs tw' srcDir vs tarPath)"

text \<open>
  copyDirectory, as the operations it makes on the file system: a directory is made
  with \<open>os.MkdirAll\<close>, a file is copied with copyFile, a symbolic link is passed over.
\<close>

datatype fsOp = MkdirAllOp string FileMode | copyFileOp string string FileMode

fun copyDirectory :: "fsEnv \<Rightarrow> string \<Rightarrow> visit list \<Rightarrow> string \<Rightarrow> error option \<times> fsOp list" where
  "copyDirectory fs src [] dst = (None, [])"
| "copyDirectory fs src (v # vs) dst =
     (case walkErr v of
        Some e \<Rightarrow> (Some e, [])
      | None \<Rightarrow>
          let path = Join [src, Rel v];
              dstPath = Join [dst, Rel v]
          in if isSymlink (info v) then copyDirectory fs src vs dst
             else if IsDir (info v) then
               (case MkdirAll fs dstPath of
                  Some e \<Rightarrow> (Some e, [MkdirAllOp dstPath (FileInfo.Mode (info v))])
                | None \<Rightarrow>
                    (case copyDirectory fs src vs dst of
                       (r, ops) \<Rightarrow> (r, MkdirAllOp dstPath (FileInfo.Mode (info v)) # ops)))
             else
               (case copyFile fs path dstPath of
                  Some e \<Rightarrow> (Some e, [copyFileOp path dstPath (FileInfo.Mode (info v))])
                | None \<Rightarrow>
                    (case copyDirectory fs src vs dst of
                       (r, ops) \<Rightarrow> (r, copyFileOp path dstPath (FileInfo.Mode (info v)) # ops))))"

text \<open>The two headers that the archive function builds for a tracked path.\<close>

definition trackedDirHeader :: "string \<Rightarrow> FileInfo \<Rightarrow> Header" where
  "trackedDirHeader relPath i =
     \<lparr>Name = Join [''app'', relPath] @ ''/'',
      Mode = uint (FileInfo.Mode i),
      Size = 0,
      ModTime = FileInfo.ModTime i,
      Typeflag = TypeDir\<rparr>"

definition trackedFileHeader :: "string \<Rightarrow> FileInfo \<Rightarrow> Header" where
  "trackedFileHeader relPath i =
     \<lparr>Name = Join [''app'', relPath],
      Mode = uint (FileInfo.Mode i),
      Size = FileInfo.Size i,
      ModTime = FileInfo.ModTime i,
      Typeflag = CHR 0x00\<rparr>"

text \<open>
  \<open>for scanner.Scan() { ... }\<close> over the lines of \<open>git ls-files\<close>: an empty line, a
  path that \<open>Lstat\<close> cannot read and a symbolic link are passed over with \<open>continue\<close>.
\<close>

fun addTracked :: "fsEnv \<Rightarrow> string \<Rightarrow> tarWriter \<Rightarrow> string list \<Rightarrow> error option \<times> tarWriter" where
  "addTracked fs tempRoot tw [] = (None, tw)"
| "addTracked fs tempRoot tw (relPath # rest) =
     (if relPath = [] then addTracked fs tempRoot tw rest
      else
        let fullPath = Join [tempRoot, relPath] in
        (case Lstat fs fullPath of
           Inl e \<Rightarrow> addTracked fs tempRoot tw rest
         | Inr i \<Rightarrow>
             if isSymlink i then addTracked fs tempRoot tw rest
             else if IsDir i then
               (case WriteHeader tw (trackedDirHeader relPath i) of
                  (Some e, tw') \<Rightarrow>
                    (Some (Errorf ''failed to write directory header for %s: %w'' [S relPath, W e]), tw')
                | (None, tw') \<Rightarrow> addTracked fs tempRoot tw' rest)
             else
               (case Open fs fullPath of
                  Some e \<Rightarrow>
                    (Some (Errorf ''failed to open tracked file %q: %w\<newline>File may have been deleted''
                             [Q relPath, W e]), tw)
                | None \<Rightarrow>
                    (case WriteHeader tw (trackedFileHeader relPath i) of
                       (Some e, tw') \<Rightarrow>
                         (Some (Errorf ''failed to write header for %s: %w'' [S relPath, W e]), tw')
                     | (None, tw') \<Rightarrow>
                         (case Copy fs fullPath of
                            Some e \<Rightarrow>
                              (Some (Errorf ''failed to write file %s: %w'' [S relPath, W e]), tw')
                          | None \<Rightarrow> addTracked fs tempRoot tw' rest)))))"

text \<open>
  How a subprocess ends: with success, with an \<open>*exec.ExitError\<close> and its exit code, or
  with another error (it could not be started). \<open>cmdError\<close> is the error value of the
  last two.
\<close>

datatype cmdResult = Succeeded | ExitError int | OtherError error

fun cmdError :: "cmdResult \<Rightarrow> error option" where
  "cmdError Succeeded = None"
| "cmdError (ExitError n) = Some (Errorf ''exit status %d'' [D n])"
| "cmdError (OtherError e) = Some e"

text \<open>
  What CreateArchive meets: the results of its subprocesses, in the order it runs them;
  the temporary directory; what \<open>filepath.Walk\<close> finds under the repository's \<open>.git\<close>
  and, after the git commands, under the copy; the lines that the scanner yields for
  the output of \<open>git ls-files\<close>, and the scanner's error; the file system; and how many
  headers the reader of the stream takes.
\<close>

record archiveEnv =
  revParse :: "error + string"
  MkdirTemp :: "error + string"
  walkSrc :: "visit list"
  checkoutHead :: cmdResult
  remoteRemove :: cmdResult
  remoteAdd :: cmdResult
  configEmail :: cmdResult
  configName :: cmdResult
  checkoutBranch :: cmdResult
  walkDst :: "visit list"
  lsFiles :: "error + string list"
  scannerErr :: "error option"
  files :: fsEnv
  reader :: "nat option"

text \<open>
  \<open>strings.TrimSpace\<close>. A Go string is a sequence of bytes read as UTF-8, and white space
  is what \<open>unicode.IsSpace\<close> takes for it: the code points U+0009 to U+000D, U+0020,
  U+0085, U+00A0, U+1680, U+2000 to U+200A, U+2028, U+2029, U+202F, U+205F and U+3000,
  here each as the bytes of its encoding. Such runes are dropped from the front and
  then from the back; any other byte, also one that is no valid UTF-8, ends the
  trimming.
\<close>

definition White_Space :: "string list" where
  "White_Space =
     [[CHR 0x09], [CHR 0x0A], [CHR 0x0B], [CHR 0x0C], [CHR 0x0D], [CHR 0x20],
      [CHR 0xC2, CHR 0x85], [CHR 0xC2, CHR 0xA0],
      [CHR 0xE1, CHR 0x9A, CHR 0x80],
      [CHR 0xE2, CHR 0x80, CHR 0x80], [CHR 0xE2, CHR 0x80, CHR 0x81], [CHR 0xE2, CHR 0x80, CHR 0x82],
      [CHR 0xE2, CHR 0x80, CHR 0x83], [CHR 0xE2, CHR 0x80, CHR 0x84], [CHR 0xE2, CHR 0x80, CHR 0x85],
      [CHR 0xE2, CHR 0x80, CHR 0x86], [CHR 0xE2, CHR 0x80, CHR 0x87], [CHR 0xE2, CHR 0x80, CHR 0x88],
      [CHR 0xE2, CHR 0x80, CHR 0x89], [CHR 0xE2, CHR 0x80, CHR 0x8A],
      [CHR 0xE2, CHR 0x80, CHR 0xA8], [CHR 0xE2, CHR 0x80, CHR 0xA9], [CHR 0xE2, CHR 0x80, CHR 0xAF],
      [CHR 0xE2, CHR 0x81, CHR 0x9F],
      [CHR 0xE3, CHR 0x80, CHR 0x80]]"

function dropRunes :: "string list \<Rightarrow> string \<Rightarrow> string" where
  "dropRunes table s =
     (case find (\<lambda>r. r \<noteq> [] \<and> prefix r s) table of
        None \<Rightarrow> s
      | Some r \<Rightarrow> dropRunes table (drop (length r) s))"
  by pat_completeness auto
termination
proof (relation "measure (\<lambda>(table, s). length s)")
  show "wf (measure (\<lambda>(table, s). length s))" by simp
next
  fix table :: "string list" and s r :: string
  assume "find (\<lambda>r. r \<noteq> [] \<and> prefix r s) table = Some r"
  then have "r \<noteq> []" "prefix r s"
    by (auto simp: find_Some_iff)
  then have "s \<noteq> []" by auto
  then show "((table, drop (length r) s), (table, s)) \<in> measure (\<lambda>(table, s). length s)"
    using \<open>r \<noteq> []\<close> by simp
qed

declare dropRunes.simps [simp del]

definition TrimSpace :: "string \<Rightarrow> string" where
  "TrimSpace s = rev (dropRunes (map rev White_Space) (rev (dropRunes White_Space s)))"

text \<open>
  What the reader of a snapshot gets: the headers of the tar stream, the error the
  stream ends with (none at a clean end), and, beside it, the operations that built the
  copy of \<open>.git\<close>.
\<close>

record snapshot =
  entries :: "Header list"
  streamErr :: "error option"
  copied :: "fsOp list"

definition failedWith :: "error \<Rightarrow> Header list \<Rightarrow> fsOp list \<Rightarrow> snapshot" where
  "failedWith e hs ops =
     \<lparr>entries = hs, streamErr = Some (Errorf ''failed to create git archive: %w'' [W e]), copied = ops\<rparr>"

text \<open>The first header of every snapshot: the directory \<open>app/\<close> with mode \<open>0755\<close>, that is 493.\<close>

definition appHeader :: Header where
  "appHeader = \<lparr>Name = ''app/'', Mode = 493, Size = 0, ModTime = 0, Typeflag = TypeDir\<rparr>"

text \<open>
  The function \<open>archive\<close> inside CreateArchive, run by the goroutine that fills the pipe.
  Removing \<open>origin\<close> may end with exit code 2; every other failure of a command ends
  the archive. The quotation marks around \<open>origin\<close> in one message are written as the
  byte \<open>0x22\<close>.
\<close>

definition archive :: "archiveEnv \<Rightarrow> string \<Rightarrow> string \<Rightarrow> string \<Rightarrow> string \<Rightarrow> string \<Rightarrow> string \<Rightarrow> snapshot" where
  "archive e gitRoot tempRoot remote branch gitUserName gitUserEmail =
     (let src = Join [gitRoot, ''.git''];
          dst = Join [tempRoot, ''.git'']
      in case copyDirectory (files e) src (walkSrc e) dst of
           (Some x, ops) \<Rightarrow>
             failedWith (Errorf ''failed to copy .git directory from %q to %q: %w\<newline>Check disk space and permissions''
                           [Q src, Q dst, W x]) [] ops
         | (None, ops) \<Rightarrow>
             (case cmdError (checkoutHead e) of
                Some x \<Rightarrow>
                  failedWith (Errorf ''failed to checkout HEAD in temporary repo: %w\<newline>You may have uncommitted changes or detached HEAD''
                                [W x]) [] ops
              | None \<Rightarrow>
                  if remoteRemove e \<noteq> Succeeded \<and> remoteRemove e \<noteq> ExitError 2 then
                    failedWith (Errorf (''failed to remove remote '' @ CHR 0x22 # ''origin'' @ CHR 0x22 # '': %w'')
                                  [W (the (cmdError (remoteRemove e)))]) [] ops
                  else
                    (case cmdError (remoteAdd e) of
                       Some x \<Rightarrow>
                         failedWith (Errorf ''failed to add git remote %q: %w\<newline>Check that the URL is valid''
                                       [Q remote, W x]) [] ops
                     | None \<Rightarrow>
                         (case cmdError (configEmail e) of
                            Some x \<Rightarrow>
                              failedWith (Errorf ''failed to configure git user.email to %q: %w''
                                            [Q gitUserEmail, W x]) [] ops
                          | None \<Rightarrow>
                              (case cmdError (configName e) of
                                 Some x \<Rightarrow>
                                   failedWith (Errorf ''failed to configure git user.name to %q: %w''
                                                 [Q gitUserName, W x]) [] ops
                               | None \<Rightarrow>
                                   (case cmdError (checkoutBranch e) of
                                      Some x \<Rightarrow>
                                        failedWith (Errorf ''failed to create and checkout branch %q: %w\<newline>Branch may already exist''
                                                      [Q branch, W x]) [] ops
                                    | None \<Rightarrow>
                                        (case WriteHeader \<lparr>written = [], room = reader e\<rparr> appHeader of
                                           (Some x, tw) \<Rightarrow>
                                             failedWith (Errorf ''failed to create app directory: %w'' [W x])
                                               (written tw) ops
                                         | (None, tw) \<Rightarrow>
                                             (case addDirectoryToArchive (files e) tw dst (walkDst e) ''app/.git'' of
                                                (Some x, tw') \<Rightarrow>
                                                  failedWith (Errorf ''failed to add .git directory: %w'' [W x])
                                                    (written tw') ops
                                              | (None, tw') \<Rightarrow>
                                                  (case lsFiles e of
                                                     Inl x \<Rightarrow>
                                                       failedWith (Errorf ''failed to list git tracked files: %w\<newline>Repository may be corrupted''
                                                                     [W x]) (written tw') ops
                                                   | Inr output \<Rightarrow>
                                                       (case addTracked (files e) tempRoot tw' output of
                                                          (Some x, tw'') \<Rightarrow> failedWith x (written tw'') ops
                                                        | (None, tw'') \<Rightarrow>
                                                            (case scannerErr e of
                                                               Some x \<Rightarrow>
                                                                 failedWith (Errorf ''error reading git file list: %w'' [W x])
                                                                   (written tw'') ops
                                                             | None \<Rightarrow>
                                                                 \<lparr>entries = written tw'', streamErr = None,
                                                                  copied = ops\<rparr>)))))))))))"

text \<open>
  CreateArchive: an error when the repository root or the temporary directory cannot
  be had, and otherwise the stream that the goroutine produces.
\<close>

definition CreateArchive ::
  "archiveEnv \<Rightarrow> string \<Rightarrow> string \<Rightarrow> string \<Rightarrow> string \<Rightarrow> string \<Rightarrow> error + snapshot" where
  "CreateArchive e path remote branch gitUserName gitUserEmail =
     (case revParse e of
        Inl x \<Rightarrow>
          Inl (Errorf ''failed to get git root path from %q: %w\<newline>Ensure you're in a git repository''
                 [Q path, W x])
      | Inr output \<Rightarrow>
          let root = TrimSpace output in
          (case MkdirTemp e of
             Inl x \<Rightarrow>
               Inl (Errorf ''failed to create temporary directory: %w\<newline>Check disk space and /tmp permissions''
                      [W x])
           | Inr tempDir \<Rightarrow> Inr (archive e root tempDir remote branch gitUserName gitUserEmail)))"

text \<open>
  The names that a walk and the git index are made of. A directory entry has a name
  that is not empty, is neither \<open>.\<close> nor \<open>..\<close> and holds no separator; \<open>filepath.Walk\<close>
  reaches a file through such names, and a path of the git index, as \<open>git ls-files\<close>
  prints it, is such names with separators between them.
\<close>

definition entryName :: "string \<Rightarrow> bool" where
  "entryName n = (n \<noteq> [] \<and> n \<noteq> ''.'' \<and> n \<noteq> ''..'' \<and> CHR ''/'' \<notin> set n)"

definition walked :: "visit \<Rightarrow> bool" where
  "walked v = list_all entryName (names v)"

definition trackedPath :: "string \<Rightarrow> bool" where
  "trackedPath p = list_all entryName (splitSlash p)"

text \<open>
  Where an entry of a snapshot comes from: a file that the walk of the copied \<open>.git\<close>
  met and that is no symbolic link, or a tracked path that \<open>Lstat\<close> could read and
  that is no symbolic link. And where an operation of copyDirectory comes from: a file
  under the repository's \<open>.git\<close> that is no symbolic link.
\<close>

definition fromWalk :: "archiveEnv \<Rightarrow> Header \<Rightarrow> bool" where
  "fromWalk e h =
     (\<exists>v \<in> set (walkDst e). \<not> isSymlink (info v)
        \<and> (h = walkedDirHeader ''app/.git'' v \<or> h = walkedFileHeader ''app/.git'' v))"

definition fromTracked :: "archiveEnv \<Rightarrow> string \<Rightarrow> Header \<Rightarrow> bool" where
  "fromTracked e tempRoot h =
     (\<exists>ps. lsFiles e = Inr ps
        \<and> (\<exists>p \<in> set ps. \<exists>i. p \<noteq> [] \<and> Lstat (files e) (Join [tempRoot, p]) = Inr i \<and> \<not> isSymlink i
              \<and> (h = trackedDirHeader p i \<or> h = trackedFileHeader p i)))"

definition fromSource :: "archiveEnv \<Rightarrow> string \<Rightarrow> string \<Rightarrow> fsOp \<Rightarrow> bool" where
  "fromSource e src dst op =
     (\<exists>v \<in> set (walkSrc e). \<not> isSymlink (info v)
        \<and> (op = MkdirAllOp (Join [dst, Rel v]) (FileInfo.Mode (info v))
            \<or> op = copyFileOp (Join [src, Rel v]) (Join [dst, Rel v]) (FileInfo.Mode (info v))))"

text \<open>
  A small repository: its \<open>.git\<close> holds the file \<open>HEAD\<close> and a symbolic link \<open>hooks\<close>;
  the tracked paths are \<open>regular.txt\<close> and the symbolic link \<open>link.txt\<close>, as in the test
  that checks that links are skipped. The modes are \<open>0644\<close>, \<open>ModeDir|0755\<close> and
  \<open>ModeSymlink|0777\<close>.
\<close>

definition regularFile :: FileInfo where
  "regularFile = \<lparr>FileInfo.Mode = 420, FileInfo.Size = 8, FileInfo.ModTime = 1700000000\<rparr>"

definition directory :: FileInfo where
  "directory = \<lparr>FileInfo.Mode = 2147484141, FileInfo.Size = 4096, FileInfo.ModTime = 1700000000\<rparr>"

definition symbolicLink :: FileInfo where
  "symbolicLink = \<lparr>FileInfo.Mode = 134218239, FileInfo.Size = 11, FileInfo.ModTime = 1700000000\<rparr>"

definition smallRepo :: archiveEnv where
  "smallRepo =
     \<lparr>revParse = Inr ''/repo\<newline>'',
      MkdirTemp = Inr ''/tmp/contagent-checkout-1'',
      walkSrc = [\<lparr>names = [], info = directory, walkErr = None\<rparr>,
                 \<lparr>names = [''HEAD''], info = regularFile, walkErr = None\<rparr>,
                 \<lparr>names = [''hooks''], info = symbolicLink, walkErr = None\<rparr>],
      checkoutHead = Succeeded,
      remoteRemove = ExitError 2,
      remoteAdd = Succeeded,
      configEmail = Succeeded,
      configName = Succeeded,
      checkoutBranch = Succeeded,
      walkDst = [\<lparr>names = [], info = directory, walkErr = None\<rparr>,
                 \<lparr>names = [''HEAD''], info = regularFile, walkErr = None\<rparr>,
                 \<lparr>names = [''hooks''], info = symbolicLink, walkErr = None\<rparr>],
      lsFiles = Inr [''link.txt'', ''regular.txt''],
      scannerErr = None,
      files = \<lparr>Lstat = (\<lambda>p. if p = ''/tmp/contagent-checkout-1/link.txt'' then Inr symbolicLink
                                else Inr regularFile),
               Open = (\<lambda>_. None),
               Copy = (\<lambda>_. None),
               MkdirAll = (\<lambda>_. None),
               copyFile = (\<lambda>_ _. None)\<rparr>,
      reader = None\<rparr>"

section \<open>Cleanup ledger: properties\<close>

lemma funcs_push_all:
  "funcs (push_all es m) = rev (map (\<lambda>(n, f). \<lparr>name = n, fn = f\<rparr>) es) @ funcs m"
  unfolding push_all_def
  by (induction es arbitrary: m) (auto simp: Add_def)

lemma funcs_add_all:
  "funcs (add_all es m) = rev (map (\<lambda>(n, e). \<lparr>name = n, fn = recording n e\<rparr>) es) @ funcs m"
  by (simp add: add_all_def funcs_push_all o_def split_def)

lemma run_funcs_world:
  "fst (run_funcs cs (s, lg)) = foldl (\<lambda>s' c. snd (fn c s')) s cs"
proof (induction cs arbitrary: s lg)
  case Nil
  show ?case by simp
next
  case (Cons c cs)
  show ?case
    by (cases "fn c s") (auto simp: Cons.IH split: option.splits)
qed

lemma run_funcs_append:
  "run_funcs (xs @ ys) w = run_funcs ys (run_funcs xs w)"
proof (induction xs arbitrary: w)
  case Nil
  show ?case by simp
next
  case (Cons c cs)
  obtain s lg where w: "w = (s, lg)" by (cases w)
  show ?case
    by (cases "fn c s") (auto simp: w Cons.IH split: option.splits)
qed

lemma run_funcs_recording_order:
  "fst (run_funcs (map (\<lambda>(n, e). \<lparr>name = n, fn = recording n e\<rparr>) es) (order, lg))
     = order @ map fst es"
  by (induction es arbitrary: order lg) (auto simp: recording_def split: option.splits)

lemma run_funcs_recording_log:
  "snd (run_funcs (map (\<lambda>(n, e). \<lparr>name = n, fn = recording n e\<rparr>) es) (order, lg))
     = lg @ map (\<lambda>(n, e). Errorf ''cleanup failed for %s: %v'' [S n, W (the e)])
              (filter (\<lambda>(n, e). e \<noteq> None) es)"
  by (induction es arbitrary: order lg) (auto simp: recording_def split: option.splits)

text \<open>
  C1. Whatever entries are pushed with Add, one call of Execute leaves the world as
  it is after every release action has acted on it once, the last pushed first,
  whatever any of them returns. With release actions that record their invocation, in
  whatever number and with whatever results (nil or an error), the names recorded are
  the pushed names reversed: every action is invoked exactly once, in reverse insertion
  order. An entry that returns an error stops nothing; it only adds one line to the
  log, and the log holds exactly the failing entries, in the order of their invocation.
\<close>

theorem Execute_invokes_all_in_reverse_order:
  "fst (snd (Execute (push_all fs NewCleanupManager) (s, lg0)))
     = foldl (\<lambda>s' f. snd (f s')) s (rev (map snd fs))
   \<and> fst (snd (Execute (add_all es NewCleanupManager) (order, lg))) = order @ rev (map fst es)
   \<and> snd (snd (Execute (add_all es NewCleanupManager) (order, lg)))
       = lg @ map (\<lambda>(n, e). Errorf ''cleanup failed for %s: %v'' [S n, W (the e)])
                (filter (\<lambda>(n, e). e \<noteq> None) (rev es))"
proof -
  have f: "funcs (add_all es NewCleanupManager)
             = map (\<lambda>(n, e). \<lparr>name = n, fn = recording n e\<rparr>) (rev es)"
    by (simp add: funcs_add_all NewCleanupManager_def rev_map)
  have g: "fst (snd (Execute (push_all fs NewCleanupManager) (s, lg0)))
             = foldl (\<lambda>s' f. snd (f s')) s (rev (map snd fs))"
    unfolding Execute_def snd_conv run_funcs_world funcs_push_all
    by (simp add: NewCleanupManager_def foldl_map rev_map split_def)
  show ?thesis
    unfolding Execute_def snd_conv f
    using g by (simp add: Execute_def run_funcs_recording_order run_funcs_recording_log rev_map)
qed

text \<open>The ledger of cleanup\_test.go: first, second (which fails), third.\<close>

theorem Execute_invokes_all_in_reverse_order_witness:
  "fst (snd (Execute (add_all [(''first'', None), (''second'', Some (ErrorString ''second failed'')),
                               (''third'', None)] NewCleanupManager) ([], [])))
     = [''third'', ''second'', ''first'']
   \<and> snd (snd (Execute (add_all [(''first'', None), (''second'', Some (ErrorString ''second failed'')),
                                 (''third'', None)] NewCleanupManager) ([], [])))
     = [Errorf ''cleanup failed for %s: %v'' [S ''second'', W (ErrorString ''second failed'')]]"
  using Execute_invokes_all_in_reverse_order
          [where es = "[(''first'', None), (''second'', Some (ErrorString ''second failed'')), (''third'', None)]"
             and order = "[]" and lg = "[]" and fs = "[]" and s = "()" and ?lg0.0 = "[]"]
  by simp

text \<open>
  C2, as stated: after one Execute, a second Execute is a no-op. It fails on the ledger
  that holds the single entry a: the second call changes the world again, and a has
  then been invoked twice.
\<close>

theorem Execute_twice_counterexample:
  "snd (Execute (fst (Execute (add_all [(''a'', None)] NewCleanupManager) ([], [])))
                (snd (Execute (add_all [(''a'', None)] NewCleanupManager) ([], []))))
     \<noteq> snd (Execute (add_all [(''a'', None)] NewCleanupManager) ([], []))
   \<and> fst (snd (Execute (fst (Execute (add_all [(''a'', None)] NewCleanupManager) ([], [])))
                       (snd (Execute (add_all [(''a'', None)] NewCleanupManager) ([], [])))))
     = [''a'', ''a'']"
  by (simp add: Execute_def add_all_def push_all_def Add_def NewCleanupManager_def recording_def)

text \<open>
  C2, amended. Execute leaves the ledger as it found it, so a repeated Execute is a
  second full teardown: every release action is invoked once more, in the same reverse
  insertion order.
\<close>

theorem Execute_repeated_runs_all_again:
  "fst (Execute m w) = m
   \<and> fst (snd (Execute (fst (Execute (add_all es NewCleanupManager) (order, lg)))
                        (snd (Execute (add_all es NewCleanupManager) (order, lg)))))
       = order @ rev (map fst es) @ rev (map fst es)"
proof -
  have f: "funcs (add_all es NewCleanupManager)
             = map (\<lambda>(n, e). \<lparr>name = n, fn = recording n e\<rparr>) (rev es)"
    by (simp add: funcs_add_all NewCleanupManager_def rev_map)
  obtain o1 l1 where r1:
    "run_funcs (map (\<lambda>(n, e). \<lparr>name = n, fn = recording n e\<rparr>) (rev es)) (order, lg) = (o1, l1)"
    by (cases "run_funcs (map (\<lambda>(n, e). \<lparr>name = n, fn = recording n e\<rparr>) (rev es)) (order, lg)")
  have o1: "o1 = order @ rev (map fst es)"
    using run_funcs_recording_order [of "rev es" order lg] r1 by (simp add: rev_map)
  have "fst (run_funcs (map (\<lambda>(n, e). \<lparr>name = n, fn = recording n e\<rparr>) (rev es)) (o1, l1))
          = o1 @ rev (map fst es)"
    using run_funcs_recording_order [of "rev es" o1 l1] by (simp add: rev_map)
  then show ?thesis
    unfolding Execute_def fst_conv snd_conv f r1 o1 by simp
qed

theorem Execute_repeated_runs_all_again_witness:
  "fst (Execute (add_all [(''a'', None), (''b'', None)] NewCleanupManager) ([], []))
     = add_all [(''a'', None), (''b'', None)] NewCleanupManager
   \<and> fst (snd (Execute (fst (Execute (add_all [(''a'', None), (''b'', None)] NewCleanupManager) ([], [])))
                     (snd (Execute (add_all [(''a'', None), (''b'', None)] NewCleanupManager) ([], [])))))
     = [''b'', ''a'', ''b'', ''a'']"
proof -
  have e: "[] @ rev (map fst [(''a'', None :: error option), (''b'', None)])
              @ rev (map fst [(''a'', None :: error option), (''b'', None)])
             = [''b'', ''a'', ''b'', ''a'']"
    by simp
  show ?thesis
    using Execute_repeated_runs_all_again
            [of "add_all [(''a'', None), (''b'', None)] NewCleanupManager" "([], [])"
                "[(''a'', None), (''b'', None)]" "[]" "[]"]
    unfolding e .
qed

section \<open>Configuration: properties\<close>

lemma Cut_flagText: "Cut (tl (flagText n) @ CHR ''='' # v) = Some (tl (flagText n), v)"
  by (cases n) simp_all

lemma Cut_flagText_None: "Cut (tl (flagText n)) = None"
  by (cases n) simp_all

lemma parseOne_flag:
  "parseOne (f\<lparr>args := flagArgs (fm, n, v) @ rest\<rparr>)
     = (Seen, the (formal (flagText n)) v (f\<lparr>args := rest\<rparr>))"
  by (cases fm; cases n) (simp_all add: parseOne_def splitValue_def formal_def)


lemma setFlag_args_update: "setFlag (f\<lparr>args := a\<rparr>) x = (setFlag f x)\<lparr>args := a\<rparr>"
  by (cases x; cases "fst (snd x)") (auto simp: setFlag_def formal_def)

lemma parseOne_command:
  "isCommand cmd \<Longrightarrow> parseOne (f\<lparr>args := cmd\<rparr>) = (Done, f\<lparr>args := cmd\<rparr>)"
  by (auto simp: isCommand_def parseOne_def split: list.splits)

lemma parseLoop_flags:
  "isCommand cmd \<Longrightarrow>
   parseLoop (f\<lparr>args := concat (map flagArgs fl) @ cmd\<rparr>) = (None, (foldl setFlag f fl)\<lparr>args := cmd\<rparr>)"
proof (induction fl arbitrary: f)
  case Nil
  then show ?case
    by (subst parseLoop.simps) (simp add: parseOne_command)
next
  case (Cons x fl)
  obtain fm n v where x: "x = (fm, n, v)" by (cases x)
  have "parseOne (f\<lparr>args := flagArgs x @ (concat (map flagArgs fl) @ cmd)\<rparr>)
          = (Seen, (setFlag f x)\<lparr>args := concat (map flagArgs fl) @ cmd\<rparr>)"
    unfolding x parseOne_flag setFlag_args_update [symmetric] by (simp add: setFlag_def)
  then have "parseLoop (f\<lparr>args := concat (map flagArgs (x # fl)) @ cmd\<rparr>)
          = parseLoop ((setFlag f x)\<lparr>args := concat (map flagArgs fl) @ cmd\<rparr>)"
    by (subst parseLoop.simps) simp
  then show ?case
    using Cons.IH [OF Cons.prems, of "setFlag f x"] by simp
qed

lemma setFlag_fields:
  "additionalEnv (setFlag f (fm, n, v)) = additionalEnv f @ (if n = EnvFlag then [v] else [])"
  "volumes (setFlag f (fm, n, v)) = volumes f @ (if n = VolumeFlag then [v] else [])"
  by (cases n; simp add: setFlag_def formal_def)+

lemma foldl_setFlag_additionalEnv:
  "additionalEnv (foldl setFlag f fl) = additionalEnv f @ valuesOf EnvFlag fl"
proof (induction fl arbitrary: f)
  case Nil
  show ?case by (simp add: valuesOf_def)
next
  case (Cons x fl)
  obtain fm n v where x: "x = (fm, n, v)" by (cases x)
  show ?case
    by (simp add: Cons.IH x setFlag_fields valuesOf_def)
qed

lemma foldl_setFlag_volumes:
  "volumes (foldl setFlag f fl) = volumes f @ valuesOf VolumeFlag fl"
proof (induction fl arbitrary: f)
  case Nil
  show ?case by (simp add: valuesOf_def)
next
  case (Cons x fl)
  obtain fm n v where x: "x = (fm, n, v)" by (cases x)
  show ?case
    by (simp add: Cons.IH x setFlag_fields valuesOf_def)
qed

text \<open>
  What \<open>the host's, or a default\<close> means: a key that no entry of the environment binds
  gets the default, and a key that is bound gets the value of its last binding.
\<close>

lemma lookup_unbound:
  "\<forall>x \<in> set environment. \<forall>v. Cut x \<noteq> Some (k, v) \<Longrightarrow>
   foldl (\<lambda>m variable. case Cut variable of None \<Rightarrow> m | Some (k', v) \<Rightarrow> m(k' \<mapsto> v)) m environment k = m k"
  by (induction environment arbitrary: m) (auto split: option.splits)

lemma hostOr_absent:
  "\<forall>x \<in> set environment. \<forall>v. Cut x \<noteq> Some (k, v) \<Longrightarrow> hostOr environment k d = d"
  by (simp add: hostOr_def lookupOf_def lookup_unbound)

lemma hostOr_present:
  "Cut x = Some (k, v) \<Longrightarrow> \<forall>y \<in> set later. \<forall>v'. Cut y \<noteq> Some (k, v') \<Longrightarrow>
   hostOr (earlier @ x # later) k d = v"
  by (simp add: hostOr_def lookupOf_def lookup_unbound)

lemma Cut_binding: "CHR ''='' \<notin> set k \<Longrightarrow> Cut (k @ CHR ''='' # v) = Some (k, v)"
  by (induction k) auto

lemma Cut_Some_D: "Cut x = Some (k, v) \<Longrightarrow> x = k @ CHR ''='' # v \<and> CHR ''='' \<notin> set k"
proof (induction x arbitrary: k)
  case Nil
  then show ?case by simp
next
  case (Cons c cs)
  show ?case
  proof (cases "c = CHR ''=''")
    case True
    with Cons.prems show ?thesis by simp
  next
    case False
    with Cons.prems obtain k' where c: "Cut cs = Some (k', v)" and k: "k = c # k'"
      by (auto split: option.splits)
    from Cons.IH [OF c] False k show ?thesis by simp
  qed
qed

lemma Cut_Some_iff: "Cut x = Some (k, v) \<longleftrightarrow> x = k @ CHR ''='' # v \<and> CHR ''='' \<notin> set k"
  using Cut_Some_D [of x k v] Cut_binding [of k v] by auto

lemma hostOr_no_entry:
  "CHR ''='' \<notin> set k \<Longrightarrow> \<forall>v'. k @ CHR ''='' # v' \<notin> set environment \<Longrightarrow>
   hostOr environment k d = d"
  by (rule hostOr_absent) (auto simp: Cut_Some_iff)

lemma hostOr_last_entry:
  "CHR ''='' \<notin> set k \<Longrightarrow> \<forall>v'. k @ CHR ''='' # v' \<notin> set later \<Longrightarrow>
   hostOr (earlier @ (k @ CHR ''='' # v) # later) k d = v"
  by (rule hostOr_present) (auto simp: Cut_Some_iff)

lemma ParseConfig_fields:
  "Config.Env (ParseConfig arguments environment)
     = [''TERM='' @ hostOr environment ''TERM'' ''xterm-256color'',
        ''COLORTERM='' @ hostOr environment ''COLORTERM'' ''truecolor'',
        ''ANTHROPIC_API_KEY='' @ hostOr environment ''ANTHROPIC_API_KEY'' [],
        ''SSH_AUTH_SOCK=/run/host-services/ssh-auth.sock'']
       @ additionalEnv (snd (Parse arguments NewFlagSet))"
  "Config.Volumes (ParseConfig arguments environment)
     = [''/var/run/docker.sock:/var/run/docker.sock'',
        ''/run/host-services/ssh-auth.sock:/run/host-services/ssh-auth.sock'']
       @ volumes (snd (Parse arguments NewFlagSet))"
  "Config.Args (ParseConfig arguments environment) = args (snd (Parse arguments NewFlagSet))"
  by (simp_all add: ParseConfig_def Let_def hostOr_def)

text \<open>
  C8. For every argument vector and every host environment, the container environment
  of ParseConfig is TERM (the host's, or xterm-256color), COLORTERM (the host's, or
  truecolor), ANTHROPIC\_API\_KEY (the host's, or empty), the fixed SSH\_AUTH\_SOCK binding,
  and then the values that flag parsing gave to \<open>--env\<close>, in order; the mounts are the
  two default mounts and then the values given to \<open>--volume\<close>, in order; the command is
  what flag parsing left over. On a vector made of flags (each in any of the four
  spellings the flag package takes) followed by a command, the values given to
  \<open>--env\<close> and \<open>--volume\<close> are exactly the values written after those flags, in
  order, and what is left over is exactly the command. And \<open>the host's, or a default\<close>
  is this, for every key without \<open>=\<close>: when the environment has no entry that is the
  key, \<open>=\<close> and a value, it is the default; when it has one, it is the value of the
  last such entry, whatever stands before it.
\<close>

theorem ParseConfig_env_volumes_command:
  "Config.Env (ParseConfig arguments environment)
     = [''TERM='' @ hostOr environment ''TERM'' ''xterm-256color'',
        ''COLORTERM='' @ hostOr environment ''COLORTERM'' ''truecolor'',
        ''ANTHROPIC_API_KEY='' @ hostOr environment ''ANTHROPIC_API_KEY'' [],
        ''SSH_AUTH_SOCK=/run/host-services/ssh-auth.sock'']
       @ additionalEnv (snd (Parse arguments NewFlagSet))
   \<and> Config.Volumes (ParseConfig arguments environment)
     = [''/var/run/docker.sock:/var/run/docker.sock'',
        ''/run/host-services/ssh-auth.sock:/run/host-services/ssh-auth.sock'']
       @ volumes (snd (Parse arguments NewFlagSet))
   \<and> Config.Args (ParseConfig arguments environment) = args (snd (Parse arguments NewFlagSet))
   \<and> (isCommand cmd \<longrightarrow>
        additionalEnv (snd (Parse (concat (map flagArgs fl) @ cmd) NewFlagSet)) = valuesOf EnvFlag fl
        \<and> volumes (snd (Parse (concat (map flagArgs fl) @ cmd) NewFlagSet)) = valuesOf VolumeFlag fl
        \<and> args (snd (Parse (concat (map flagArgs fl) @ cmd) NewFlagSet)) = cmd)
   \<and> (CHR ''='' \<notin> set k \<and> (\<forall>v'. k @ CHR ''='' # v' \<notin> set environment)
        \<longrightarrow> hostOr environment k d = d)
   \<and> (CHR ''='' \<notin> set k \<and> (\<forall>v'. k @ CHR ''='' # v' \<notin> set later)
        \<longrightarrow> hostOr (earlier @ (k @ CHR ''='' # v) # later) k d = v)"
proof -
  have "isCommand cmd \<Longrightarrow>
        snd (Parse (concat (map flagArgs fl) @ cmd) NewFlagSet) = (foldl setFlag NewFlagSet fl)\<lparr>args := cmd\<rparr>"
    by (simp add: Parse_def parseLoop_flags)
  then have flags: "isCommand cmd \<longrightarrow>
        additionalEnv (snd (Parse (concat (map flagArgs fl) @ cmd) NewFlagSet)) = valuesOf EnvFlag fl
        \<and> volumes (snd (Parse (concat (map flagArgs fl) @ cmd) NewFlagSet)) = valuesOf VolumeFlag fl
        \<and> args (snd (Parse (concat (map flagArgs fl) @ cmd) NewFlagSet)) = cmd"
    by (simp add: foldl_setFlag_additionalEnv foldl_setFlag_volumes NewFlagSet_def)
  show ?thesis
    using flags hostOr_no_entry [of k environment d] hostOr_last_entry [of k later earlier v d]
    by (simp only: ParseConfig_fields) blast
qed

text \<open>
  The sixth scenario of the specification, \<open>--env K=V --volume /a:/b cmd\<close>, on a host
  whose environment binds TERM twice, after an entry for another key and an entry
  without \<open>=\<close>, binds COLORTERM once and does not bind ANTHROPIC\_API\_KEY.
\<close>

theorem ParseConfig_env_volumes_command_witness:
  "isCommand [''cmd'']
   \<and> Config.Env (ParseConfig [''--env'', ''K=V'', ''--volume'', ''/a:/b'', ''cmd'']
                    [''FOO=1'', ''TERM'', ''TERM=xterm'', ''COLORTERM=24bit'', ''TERM=vt100=x''])
       = [''TERM=vt100=x'', ''COLORTERM=24bit'', ''ANTHROPIC_API_KEY='',
          ''SSH_AUTH_SOCK=/run/host-services/ssh-auth.sock'', ''K=V'']
   \<and> Config.Volumes (ParseConfig [''--env'', ''K=V'', ''--volume'', ''/a:/b'', ''cmd'']
                        [''FOO=1'', ''TERM'', ''TERM=xterm'', ''COLORTERM=24bit'', ''TERM=vt100=x''])
       = [''/var/run/docker.sock:/var/run/docker.sock'',
          ''/run/host-services/ssh-auth.sock:/run/host-services/ssh-auth.sock'', ''/a:/b'']
   \<and> Config.Args (ParseConfig [''--env'', ''K=V'', ''--volume'', ''/a:/b'', ''cmd'']
                     [''FOO=1'', ''TERM'', ''TERM=xterm'', ''COLORTERM=24bit'', ''TERM=vt100=x''])
       = [''cmd'']"
proof -
  let ?argv = "[''--env'', ''K=V'', ''--volume'', ''/a:/b'', ''cmd'']"
  let ?host = "[''FOO=1'', ''TERM'', ''TERM=xterm'', ''COLORTERM=24bit'', ''TERM=vt100=x'']"
  let ?fl = "[(DashDash, EnvFlag, ''K=V''), (DashDash, VolumeFlag, ''/a:/b'')]"
  have c: "isCommand [''cmd'']" by (simp add: isCommand_def)
  have a: "concat (map flagArgs ?fl) @ [''cmd''] = ?argv"
    by simp
  have t: "hostOr ?host ''TERM'' ''xterm-256color'' = ''vt100=x''"
    using ParseConfig_env_volumes_command
            [where k = "''TERM''" and v = "''vt100=x''" and later = "[]"
               and earlier = "[''FOO=1'', ''TERM'', ''TERM=xterm'', ''COLORTERM=24bit'']"
               and d = "''xterm-256color''"]
    by simp
  have ct: "hostOr ?host ''COLORTERM'' ''truecolor'' = ''24bit''"
    using ParseConfig_env_volumes_command
            [where k = "''COLORTERM''" and v = "''24bit''" and later = "[''TERM=vt100=x'']"
               and earlier = "[''FOO=1'', ''TERM'', ''TERM=xterm'']" and d = "''truecolor''"]
    by simp
  have k: "hostOr ?host ''ANTHROPIC_API_KEY'' [] = []"
    using ParseConfig_env_volumes_command
            [where k = "''ANTHROPIC_API_KEY''" and environment = ?host and d = "[]"]
    by simp
  show ?thesis
    using c ParseConfig_env_volumes_command
              [where arguments = ?argv and environment = ?host and cmd = "[''cmd'']" and fl = ?fl]
    unfolding a t ct k by (simp add: valuesOf_def)
qed

text \<open>
  C10. Whatever the argument vector and the host environment, the Config of ParseConfig
  has image name contagent:latest, working directory /app, stop timeout 10, ten TTY
  resize retries with a base delay of 10 milliseconds (as a \<open>time.Duration\<close>, ten million
  nanoseconds), and
  the committer identity Contagent, contagent@example.com.
\<close>

theorem ParseConfig_constants:
  "Config.ImageName (ParseConfig arguments environment) = ''contagent:latest''
   \<and> Config.WorkingDir (ParseConfig arguments environment) = ''/app''
   \<and> Config.StopTimeout (ParseConfig arguments environment) = 10
   \<and> Config.TTYRetries (ParseConfig arguments environment) = 10
   \<and> Config.RetryDelay (ParseConfig arguments environment) = 10 * Millisecond
   \<and> sint (Config.RetryDelay (ParseConfig arguments environment)) = 10000000
   \<and> GitUserConfig.Name (GitUser (ParseConfig arguments environment)) = ''Contagent''
   \<and> GitUserConfig.Email (GitUser (ParseConfig arguments environment)) = ''contagent@example.com''"
  by (simp add: ParseConfig_def Let_def DefaultStopTimeout_def DefaultTTYRetries_def
        DefaultRetryDelay_def Millisecond_def)

theorem ParseConfig_constants_witness:
  "Config.ImageName (ParseConfig [''--network'', ''host'', ''sh''] [''TERM=dumb'']) = ''contagent:latest''
   \<and> Config.WorkingDir (ParseConfig [''--network'', ''host'', ''sh''] [''TERM=dumb'']) = ''/app''
   \<and> Config.StopTimeout (ParseConfig [''--network'', ''host'', ''sh''] [''TERM=dumb'']) = 10
   \<and> Config.TTYRetries (ParseConfig [''--network'', ''host'', ''sh''] [''TERM=dumb'']) = 10
   \<and> sint (Config.RetryDelay (ParseConfig [''--network'', ''host'', ''sh''] [''TERM=dumb''])) = 10000000
   \<and> GitUserConfig.Name (GitUser (ParseConfig [''--network'', ''host'', ''sh''] [''TERM=dumb''])) = ''Contagent''
   \<and> GitUserConfig.Email (GitUser (ParseConfig [''--network'', ''host'', ''sh''] [''TERM=dumb'']))
       = ''contagent@example.com''"
  using ParseConfig_constants [of "[''--network'', ''host'', ''sh'']" "[''TERM=dumb'']"]
  by (simp add: Millisecond_def)

section \<open>Container engine driver: properties\<close>

lemma decodeLoop_records:
  "\<forall>i. \<not> ctxDone e i \<Longrightarrow>
   decodeLoop e i (map Decoded rs) w
     = ((case dropWhile (\<lambda>r. Code r = 0) rs of
           [] \<Rightarrow> None
         | r # _ \<Rightarrow> Some (Errorf ''docker build failed: %s\<newline>Check your Dockerfile syntax and base image availability''
                            [S (Message r)])),
        w @ map (\<lambda>r. Print (Stream r)) (takeWhile (\<lambda>r. Code r = 0) rs))"
  by (induction rs arbitrary: i w) auto

lemma build_failed_text:
  "Error quote (Errorf ''docker build failed: %s\<newline>Check your Dockerfile syntax and base image availability'' [S m])
     = ''docker build failed: '' @ m @ ''\<newline>Check your Dockerfile syntax and base image availability''"
  by simp

text \<open>
  C7. Let the Dockerfile be readable, the engine accept the build, the tar stream be
  written without an error seen, the context stay live, and the response body be a
  sequence of decoded records. Then BuildImage writes to the sink, in order, the stream
  fragments of the records before the first one with a nonzero error code, and nothing
  else. If no record has a nonzero code, it returns the Image named as requested. If
  one has, it returns an error whose text is \<open>docker build failed: \<close>, that record's
  message, and the advice line; no later record is written.
\<close>

theorem BuildImage_streams_until_first_error:
  assumes "ReadFile e path = Inr dockerfile"
    and "ImageBuild c dockerfile \<lparr>Dockerfile = ''Dockerfile'', Tags = [imageName], Remove = True\<rparr>
           = Inr (map Decoded rs)"
    and "tarSelect e = Default \<or> tarSelect e = FromErrChan None"
    and "\<forall>i. \<not> ctxDone e i"
  shows "snd (BuildImage c e path imageName w)
           = w @ map (\<lambda>r. Print (Stream r)) (takeWhile (\<lambda>r. Code r = 0) rs)
         \<and> (case dropWhile (\<lambda>r. Code r = 0) rs of
               [] \<Rightarrow> fst (BuildImage c e path imageName w) = Inr \<lparr>Image.Name = imageName\<rparr>
             | r # _ \<Rightarrow>
                 (\<exists>err. fst (BuildImage c e path imageName w) = Inl err
                    \<and> Error quote err
                        = ''docker build failed: '' @ Message r
                            @ ''\<newline>Check your Dockerfile syntax and base image availability''))"
proof -
  let ?loop = "decodeLoop e 0 (map Decoded rs) w"
  have b: "BuildImage c e path imageName w
             = (case ?loop of (Some err, w') \<Rightarrow> (Inl err, w') | (None, w') \<Rightarrow> (Inr \<lparr>Image.Name = imageName\<rparr>, w'))"
    using assms(1,2,3) by (auto simp: BuildImage_def)
  define d where "d = dropWhile (\<lambda>r. Code r = 0) rs"
  show ?thesis
    unfolding b decodeLoop_records [OF assms(4)] d_def [symmetric]
    by (cases d) (simp_all add: build_failed_text del: Error.simps)
qed


text \<open>A body of three records, the second one an error record as in the mock test.\<close>

theorem BuildImage_streams_until_first_error_witness:
  "snd (BuildImage
          (stubClient [Decoded \<lparr>Stream = ''Step 1/1'', Code = 0, Message = []\<rparr>,
                       Decoded \<lparr>Stream = [], Code = 1, Message = ''dockerfile parse error''\<rparr>,
                       Decoded \<lparr>Stream = ''later'', Code = 0, Message = []\<rparr>] None)
          stubBuildEnv ''Dockerfile'' ''test:latest'' [])
     = [Print ''Step 1/1'']
   \<and> (\<exists>err. fst (BuildImage
                    (stubClient [Decoded \<lparr>Stream = ''Step 1/1'', Code = 0, Message = []\<rparr>,
                                 Decoded \<lparr>Stream = [], Code = 1, Message = ''dockerfile parse error''\<rparr>,
                                 Decoded \<lparr>Stream = ''later'', Code = 0, Message = []\<rparr>] None)
                    stubBuildEnv ''Dockerfile'' ''test:latest'' []) = Inl err
          \<and> Error (\<lambda>s. s) err
              = ''docker build failed: dockerfile parse error\<newline>Check your Dockerfile syntax and base image availability'')"
  using BuildImage_streams_until_first_error
          [of stubBuildEnv "''Dockerfile''" "''FROM alpine:latest''"
              "stubClient [Decoded \<lparr>Stream = ''Step 1/1'', Code = 0, Message = []\<rparr>,
                           Decoded \<lparr>Stream = [], Code = 1, Message = ''dockerfile parse error''\<rparr>,
                           Decoded \<lparr>Stream = ''later'', Code = 0, Message = []\<rparr>] None"
              "''test:latest''"
              "[\<lparr>Stream = ''Step 1/1'', Code = 0, Message = []\<rparr>,
                \<lparr>Stream = [], Code = 1, Message = ''dockerfile parse error''\<rparr>,
                \<lparr>Stream = ''later'', Code = 0, Message = []\<rparr>]"
              "[]" "\<lambda>s. s"]
  by (simp add: stubClient_def stubBuildEnv_def)

text \<open>
  C4. For every container handle, when the \<open>select\<close> of Wait takes the signal, Wait
  returns nil, and its requests to the engine are the wait request it began with and
  exactly one stop request, for this container and with the handle's stop timeout.
  Whether the stop succeeds or fails changes only the sink: a failure adds one warning
  and is not returned.
\<close>

theorem Wait_on_signal_stops_once_and_returns_nil:
  "fst (Wait c Signal) = None
   \<and> fst (snd (Wait c Signal))
       = [ContainerWaitRequest (ID c) WaitConditionNotRunning,
          ContainerStopRequest (ID c) (Container.StopTimeout c)]
   \<and> (case ContainerStop (client c) (ID c) (Container.StopTimeout c) of
         None \<Rightarrow>
           snd (snd (Wait c Signal)) = [Println ''\<newline>Received signal, stopping container...'']
       | Some err \<Rightarrow>
           snd (snd (Wait c Signal))
             = [Println ''\<newline>Received signal, stopping container...'',
                Warningf ''failed to stop container: %v'' [W err]])"
  by (simp add: Wait_def Let_def split: option.splits)

text \<open>A handle whose stop request fails.\<close>

theorem Wait_on_signal_stops_once_and_returns_nil_witness:
  "fst (Wait \<lparr>client = stubClient [] (Some (ErrorString ''context canceled'')),
              ID = ''container123'', Name = ''contagent-1234'',
              StopTimeout = 10, TTYRetries = 10, RetryDelay = 10000000\<rparr> Signal) = None
   \<and> fst (snd (Wait \<lparr>client = stubClient [] (Some (ErrorString ''context canceled'')),
                     ID = ''container123'', Name = ''contagent-1234'',
                     StopTimeout = 10, TTYRetries = 10, RetryDelay = 10000000\<rparr> Signal))
       = [ContainerWaitRequest ''container123'' WaitConditionNotRunning,
          ContainerStopRequest ''container123'' 10]
   \<and> snd (snd (Wait \<lparr>client = stubClient [] (Some (ErrorString ''context canceled'')),
                     ID = ''container123'', Name = ''contagent-1234'',
                     StopTimeout = 10, TTYRetries = 10, RetryDelay = 10000000\<rparr> Signal))
       = [Println ''\<newline>Received signal, stopping container...'',
          Warningf ''failed to stop container: %v'' [W (ErrorString ''context canceled'')]]"
  using Wait_on_signal_stops_once_and_returns_nil
          [of "\<lparr>client = stubClient [] (Some (ErrorString ''context canceled'')),
                ID = ''container123'', Name = ''contagent-1234'',
                StopTimeout = 10, TTYRetries = 10, RetryDelay = 10000000\<rparr>"]
  by (simp add: stubClient_def)

section \<open>Terminal bridge: properties\<close>

lemma attemptsFrom_0: "attemptsFrom t e r 0 = []"
  by (simp add: attemptsFrom_def)

lemma upt_step: "[Suc r ..< Suc (r + Suc n)] = Suc r # [Suc (Suc r) ..< Suc (Suc r + n)]"
  by (simp add: upt_conv_Cons del: upt_Suc)

lemma attemptsFrom_Suc:
  "attemptsFrom t e r (Suc n)
     = Suc r # (if failed t e (Suc r) then attemptsFrom t e (Suc r) n else [])"
  unfolding attemptsFrom_def upt_step by (simp add: Let_def del: upt_Suc)

lemma fatalAfter_Suc:
  "fatalAfter t e r (Suc n) err
     = (if failed t e (Suc r) then fatalAfter t e (Suc r) n (fst (Resize t e (Suc r))) else [])"
  unfolding fatalAfter_def upt_step by (cases n) (simp_all del: upt_Suc)

lemma retryLoop_schedule:
  "\<forall>k. \<not> retryCtxDone e k \<Longrightarrow>
   retryLoop t e r n err
     = concat (map (\<lambda>k. After (of_nat k * retryDelay t) # snd (Resize t e k)) (attemptsFrom t e r n))
       @ fatalAfter t e r n err"
proof (induction n arbitrary: r err)
  case 0
  show ?case by (simp add: attemptsFrom_0 fatalAfter_def)
next
  case (Suc n)
  obtain res evs where R: "Resize t e (Suc r) = (res, evs)" by (cases "Resize t e (Suc r)")
  show ?case
  proof (cases res)
    case None
    then show ?thesis
      using Suc.prems by (simp add: R attemptsFrom_Suc fatalAfter_Suc failed_def)
  next
    case (Some x)
    then show ?thesis
      using Suc.prems Suc.IH [OF Suc.prems, of "Suc r" "Some x"]
      by (simp add: R attemptsFrom_Suc fatalAfter_Suc failed_def)
  qed
qed

lemma fatalAfter_top:
  "fatalAfter t e 0 n None
     = (if 0 < n \<and> list_all (failed t e) [1 ..< Suc n]
        then [Sink (Fatalf ''failed to resize tty: %v'' [W (the (fst (Resize t e n)))])]
        else [])"
proof (cases "0 < n \<and> list_all (failed t e) [1 ..< Suc n]")
  case True
  then have "failed t e n" by (simp add: list_all_iff)
  then obtain x where "fst (Resize t e n) = Some x" by (auto simp: failed_def)
  then show ?thesis using True by (simp add: fatalAfter_def)
next
  case False
  then show ?thesis by (auto simp: fatalAfter_def)
qed

lemma retryLoop_is_retrySchedule:
  "\<forall>k. \<not> retryCtxDone e k \<Longrightarrow> retryLoop t e 0 (nat (maxRetries t)) None = retrySchedule t e"
  by (simp add: retryLoop_schedule fatalAfter_top retrySchedule_def Let_def)

lemma attemptsFrom_shape:
  "\<exists>m\<le>n. attemptsFrom t e r n = map (\<lambda>i. Suc (r + i)) [0 ..< m]
     \<and> (\<forall>i. Suc i < m \<longrightarrow> failed t e (Suc (r + i)))
     \<and> (m < n \<longrightarrow> 0 < m \<and> \<not> failed t e (r + m))"
proof (induction n arbitrary: r)
  case 0
  show ?case by (simp add: attemptsFrom_0)
next
  case (Suc n)
  show ?case
  proof (cases "failed t e (Suc r)")
    case False
    then show ?thesis
      by (intro exI [of _ 1]) (simp add: attemptsFrom_Suc)
  next
    case True
    from Suc.IH [of "Suc r"] obtain m where m: "m \<le> n"
      "attemptsFrom t e (Suc r) n = map (\<lambda>i. Suc (Suc r + i)) [0 ..< m]"
      "\<forall>i. Suc i < m \<longrightarrow> failed t e (Suc (Suc r + i))"
      "m < n \<longrightarrow> 0 < m \<and> \<not> failed t e (Suc r + m)"
      by blast
    have a: "map (\<lambda>i. Suc (r + i)) [0 ..< Suc m] = Suc r # map (\<lambda>i. Suc (Suc r + i)) [0 ..< m]"
      by (simp add: upt_conv_Cons map_Suc_upt [symmetric] del: upt_Suc)
    have b: "Suc i < Suc m \<longrightarrow> failed t e (Suc (r + i))" for i
      using True m(3) by (cases i) auto
    show ?thesis
      using True m(1,2,4) b unfolding attemptsFrom_Suc
      by (intro exI [of _ "Suc m"]) (simp add: a del: upt_Suc)
  qed
qed


lemma retrySchedule_shape:
  "\<exists>m\<le>nat (maxRetries t).
     retrySchedule t e
       = concat (map (\<lambda>k. After (of_nat k * retryDelay t) # snd (Resize t e k)) [1 ..< Suc m])
         @ (if m = nat (maxRetries t) \<and> 0 < m \<and> failed t e m
            then [Sink (Fatalf ''failed to resize tty: %v'' [W (the (fst (Resize t e m)))])]
            else [])
     \<and> (\<forall>k. 1 \<le> k \<and> k < m \<longrightarrow> failed t e k)
     \<and> (m < nat (maxRetries t) \<longrightarrow> 0 < m \<and> \<not> failed t e m)"
proof -
  define N where "N = nat (maxRetries t)"
  from attemptsFrom_shape [of N t e 0] obtain m where m: "m \<le> N"
    "attemptsFrom t e 0 N = map (\<lambda>i. Suc (0 + i)) [0 ..< m]"
    "\<forall>i. Suc i < m \<longrightarrow> failed t e (Suc (0 + i))"
    "m < N \<longrightarrow> 0 < m \<and> \<not> failed t e (0 + m)"
    by blast
  have att: "attemptsFrom t e 0 N = [1 ..< Suc m]"
    using m(2) by (simp add: map_Suc_upt del: upt_Suc)
  have before: "failed t e k" if "1 \<le> k" "k < m" for k
    using m(3) that by (cases k) auto
  have all: "(0 < N \<and> list_all (failed t e) [1 ..< Suc N]) = (m = N \<and> 0 < m \<and> failed t e m)"
  proof (cases "m = N")
    case True
    then show ?thesis
      using before by (cases N) (auto simp: list_all_iff less_Suc_eq)
  next
    case False
    then have "m < N" using m(1) by simp
    then have "0 < m" "\<not> failed t e m" "m \<in> set [1 ..< Suc N]" using m(4) by auto
    then show ?thesis using False by (auto simp: list_all_iff)
  qed
  have "retrySchedule t e
          = concat (map (\<lambda>k. After (of_nat k * retryDelay t) # snd (Resize t e k)) [1 ..< Suc m])
            @ (if m = N \<and> 0 < m \<and> failed t e m
               then [Sink (Fatalf ''failed to resize tty: %v'' [W (the (fst (Resize t e m)))])]
               else [])"
    unfolding retrySchedule_def Let_def N_def [symmetric] att all by simp
  then show ?thesis
    using m(1,4) before unfolding N_def by (intro exI [of _ m]) simp
qed

text \<open>
  C9, as stated. The first resize request of the bridge is the one Attach submits
  itself, before it builds the TTY. When that request fails, Attach writes a warning
  and goes on, and Monitor makes a request of its own; whether a retry task starts
  depends on that second request alone. Here Attach's request fails and Monitor's
  succeeds, with three retries configured: the session is not aborted, the warning is
  written, and no retry task is started. The same holds for a terminal that reports
  no size, where Monitor makes no request at all, although the engine would reject
  every one.
\<close>

theorem Attach_failed_request_without_retry_task:
  "attachResize (flakyAttach 0) = Some (ErrorString ''container is not running'')
   \<and> Attach (handle 3) (flakyAttach 0)
       = (None,
          [Warningf ''failed to resize tty: %v'' [W (ErrorString ''container is not running'')]],
          [ContainerResizeRequest ''container123'' 24 80],
          None)
   \<and> attachResize blindAttach = Some (ErrorString ''height and width must be greater than 0'')
   \<and> Attach (handle 3) blindAttach
       = (None,
          [Warningf ''failed to resize tty: %v'' [W (ErrorString ''height and width must be greater than 0'')]],
          [],
          None)"
  by (simp add: Attach_def Monitor_def Resize_def Let_def NewTTY_def flakyAttach_def flakyTty_def
                blindAttach_def blindTty_def handle_def stubClient_def)

text \<open>
  C9, amended. Monitor returns nil, and Attach returns what it would return if no
  resize had failed at all: no failure of a resize, Attach's own first request
  included, ends the session; a failure of that first request only writes a warning.
  Monitor then resizes once more, at once, and this resize fails exactly when the
  terminal reports a size and the engine rejects the request. The retry task is
  started exactly when it fails. With the context live, the task goes through the
  schedule of the specification: for some \<open>m\<close> up to the retry count \<open>N\<close> it makes the
  attempts \<open>1, ..., m\<close>, attempt \<open>k\<close> after a timer of \<open>k\<close> times the base delay; every
  attempt before the \<open>m\<close>-th fails; when \<open>m\<close> is below \<open>N\<close> the \<open>m\<close>-th succeeded, and the
  task ends there; and a fatal message is written at the end exactly when all \<open>N\<close>
  attempts were made and the last failed as well.
\<close>

theorem retry_task_starts_when_Monitor_resize_fails:
  assumes "t = NewTTY (ID c) (Container.TTYRetries c) (Container.RetryDelay c)"
    and "\<forall>k. \<not> retryCtxDone (tty ae) k"
  shows "fst (Monitor t (tty ae)) = None
    \<and> fst (Attach c ae) = fst (Attach c (ae\<lparr>attachResize := None, tty := flakyTty 0\<rparr>))
    \<and> fst (snd (Attach c ae))
        = (case attachResize ae of
             None \<Rightarrow> []
           | Some err \<Rightarrow> [Warningf ''failed to resize tty: %v'' [W err]])
    \<and> failed t (tty ae) 0
        = (GetTtySize (tty ae) 0 \<noteq> (0, 0) \<and> ContainerResize (tty ae) 0 \<noteq> None)
    \<and> snd (snd (snd (Attach c ae)))
        = (if failed t (tty ae) 0 then Some (retryLoop t (tty ae) 0 (nat (maxRetries t)) None) else None)
    \<and> retryLoop t (tty ae) 0 (nat (maxRetries t)) None = retrySchedule t (tty ae)
    \<and> (\<exists>m\<le>nat (maxRetries t).
          retrySchedule t (tty ae)
            = concat (map (\<lambda>k. After (of_nat k * retryDelay t) # snd (Resize t (tty ae) k)) [1 ..< Suc m])
              @ (if m = nat (maxRetries t) \<and> 0 < m \<and> failed t (tty ae) m
                 then [Sink (Fatalf ''failed to resize tty: %v'' [W (the (fst (Resize t (tty ae) m)))])]
                 else [])
          \<and> (\<forall>k. 1 \<le> k \<and> k < m \<longrightarrow> failed t (tty ae) k)
          \<and> (m < nat (maxRetries t) \<longrightarrow> 0 < m \<and> \<not> failed t (tty ae) m))"
proof -
  have mon: "Monitor t (tty ae)
               = (None, snd (Resize t (tty ae) 0),
                  if failed t (tty ae) 0 then Some (retryLoop t (tty ae) 0 (nat (maxRetries t)) None)
                  else None)"
    by (cases "Resize t (tty ae) 0") (simp add: Monitor_def failed_def)
  have mon0: "fst (Monitor t' e') = None" for t' e'
    by (cases "Resize t' e' 0") (simp add: Monitor_def)
  have att: "fst (Attach c ae') =
               (case SetRawTerminalIn ae' of
                  Some err \<Rightarrow>
                    Some (Errorf ''failed to set stdin to raw terminal mode: %w\<newline>Your terminal may not support TTY operations''
                            [W err])
                | None \<Rightarrow>
                    (case ContainerAttach (client c) (ID c) of
                       Some err \<Rightarrow>
                         Some (Errorf ''failed to attach to container %q: %w\<newline>Container may have exited prematurely or Docker API is unreachable''
                                 [Q (Container.Name c), W err])
                     | None \<Rightarrow>
                         (case SetRawTerminalOut ae' of
                            Some err \<Rightarrow>
                              Some (Errorf ''failed to set stdout to raw terminal mode: %w\<newline>Your terminal may not support TTY operations''
                                      [W err])
                          | None \<Rightarrow> None)))" for ae'
    using mon0 [of "NewTTY (ID c) (Container.TTYRetries c) (Container.RetryDelay c)" "tty ae'"]
    by (cases "Monitor (NewTTY (ID c) (Container.TTYRetries c) (Container.RetryDelay c)) (tty ae')")
       (simp add: Attach_def Let_def split: option.splits)
  have task: "snd (snd (snd (Attach c ae)))
                = (if failed t (tty ae) 0 then Some (retryLoop t (tty ae) 0 (nat (maxRetries t)) None)
                   else None)"
    using mon unfolding assms(1) by (simp add: Attach_def Let_def split: option.splits)
  have indep: "fst (Attach c ae) = fst (Attach c (ae\<lparr>attachResize := None, tty := flakyTty 0\<rparr>))"
    unfolding att by (simp split: option.splits)
  show ?thesis
  proof (intro conjI)
    show "fst (Monitor t (tty ae)) = None" by (rule mon0)
    show "fst (Attach c ae) = fst (Attach c (ae\<lparr>attachResize := None, tty := flakyTty 0\<rparr>))"
      by (rule indep)
    show "fst (snd (Attach c ae))
            = (case attachResize ae of
                 None \<Rightarrow> []
               | Some err \<Rightarrow> [Warningf ''failed to resize tty: %v'' [W err]])"
      using mon unfolding assms(1) by (simp add: Attach_def Let_def split: option.splits)
    show "failed t (tty ae) 0
            = (GetTtySize (tty ae) 0 \<noteq> (0, 0) \<and> ContainerResize (tty ae) 0 \<noteq> None)"
      by (cases "GetTtySize (tty ae) 0") (auto simp: failed_def Resize_def)
    show "snd (snd (snd (Attach c ae)))
            = (if failed t (tty ae) 0 then Some (retryLoop t (tty ae) 0 (nat (maxRetries t)) None)
               else None)"
      by (rule task)
    show "retryLoop t (tty ae) 0 (nat (maxRetries t)) None = retrySchedule t (tty ae)"
      by (rule retryLoop_is_retrySchedule [OF assms(2)])
    show "\<exists>m\<le>nat (maxRetries t).
          retrySchedule t (tty ae)
            = concat (map (\<lambda>k. After (of_nat k * retryDelay t) # snd (Resize t (tty ae) k)) [1 ..< Suc m])
              @ (if m = nat (maxRetries t) \<and> 0 < m \<and> failed t (tty ae) m
                 then [Sink (Fatalf ''failed to resize tty: %v'' [W (the (fst (Resize t (tty ae) m)))])]
                 else [])
          \<and> (\<forall>k. 1 \<le> k \<and> k < m \<longrightarrow> failed t (tty ae) k)
          \<and> (m < nat (maxRetries t) \<longrightarrow> 0 < m \<and> \<not> failed t (tty ae) m)"
      by (rule retrySchedule_shape)
  qed
qed

lemma flaky_Resize:
  "Resize t (flakyTty m) k
     = (if k < m then Some (ErrorString ''container is not running'') else None,
        [ContainerResizeRequest (id' t) 24 80])"
  by (simp add: Resize_def flakyTty_def)

text \<open>
  A container whose first three resizes fail: with three retries the third attempt
  succeeds and ends the task; with two retries both fail and the fatal message
  follows. And a container whose resizes all succeed but Attach's own: no task.
\<close>

theorem retry_task_starts_when_Monitor_resize_fails_witness:
  "(\<forall>k. \<not> retryCtxDone (flakyTty 3) k)
   \<and> failed (NewTTY ''container123'' 3 10000000) (flakyTty 3) 0
   \<and> fst (Attach (handle 3) (flakyAttach 3)) = None
   \<and> snd (snd (snd (Attach (handle 3) (flakyAttach 3))))
       = Some [After 10000000, ContainerResizeRequest ''container123'' 24 80,
               After 20000000, ContainerResizeRequest ''container123'' 24 80,
               After 30000000, ContainerResizeRequest ''container123'' 24 80]
   \<and> fst (Attach (handle 2) (flakyAttach 3)) = None
   \<and> snd (snd (snd (Attach (handle 2) (flakyAttach 3))))
       = Some [After 10000000, ContainerResizeRequest ''container123'' 24 80,
               After 20000000, ContainerResizeRequest ''container123'' 24 80,
               Sink (Fatalf ''failed to resize tty: %v'' [W (ErrorString ''container is not running'')])]
   \<and> \<not> failed (NewTTY ''container123'' 3 10000000) (flakyTty 0) 0
   \<and> snd (snd (snd (Attach (handle 3) (flakyAttach 0)))) = None"
proof -
  have f: "failed (NewTTY ''container123'' n 10000000) (flakyTty 3) 0" for n
    by (simp add: failed_def flaky_Resize)
  have f0: "\<not> failed (NewTTY ''container123'' n 10000000) (flakyTty 0) 0" for n
    by (simp add: failed_def flaky_Resize)
  have c: "\<forall>k. \<not> retryCtxDone (flakyTty j) k" for j
    by (simp add: flakyTty_def)
  have t: "tty (flakyAttach j) = flakyTty j" for j
    by (simp add: flakyAttach_def)
  have h: "NewTTY ''container123'' n 10000000
             = NewTTY (ID (handle n)) (Container.TTYRetries (handle n)) (Container.RetryDelay (handle n))" for n
    by (simp add: handle_def)
  have a: "fst (Attach (handle n) (flakyAttach 3)) = None" for n
    by (simp add: Attach_def Monitor_def Let_def flaky_Resize flakyAttach_def handle_def stubClient_def NewTTY_def)
  have n: "nat 3 = Suc (Suc (Suc 0))" "nat 2 = Suc (Suc 0)"
    by simp_all
  have x: "retryCtxDone (flakyTty j) k = False" for j k
    by (simp add: flakyTty_def)
  have r3: "retryLoop (NewTTY ''container123'' 3 10000000) (flakyTty 3) 0 (nat 3) None
              = [After 10000000, ContainerResizeRequest ''container123'' 24 80,
                 After 20000000, ContainerResizeRequest ''container123'' 24 80,
                 After 30000000, ContainerResizeRequest ''container123'' 24 80]"
    unfolding n by (simp add: flaky_Resize x NewTTY_def)
  have r2: "retryLoop (NewTTY ''container123'' 2 10000000) (flakyTty 3) 0 (nat 2) None
              = [After 10000000, ContainerResizeRequest ''container123'' 24 80,
                 After 20000000, ContainerResizeRequest ''container123'' 24 80,
                 Sink (Fatalf ''failed to resize tty: %v'' [W (ErrorString ''container is not running'')])]"
    unfolding n by (simp add: flaky_Resize x NewTTY_def)
  have m: "maxRetries (NewTTY i n d) = n" for i n d
    by (simp add: NewTTY_def)
  have t3: "snd (snd (snd (Attach (handle 3) (flakyAttach 3))))
              = Some (retryLoop (NewTTY ''container123'' 3 10000000) (flakyTty 3) 0 (nat 3) None)"
    using retry_task_starts_when_Monitor_resize_fails [OF h [of 3], of "flakyAttach 3"] f [of 3] c [of 3]
    unfolding t m by simp
  have t2: "snd (snd (snd (Attach (handle 2) (flakyAttach 3))))
              = Some (retryLoop (NewTTY ''container123'' 2 10000000) (flakyTty 3) 0 (nat 2) None)"
    using retry_task_starts_when_Monitor_resize_fails [OF h [of 2], of "flakyAttach 3"] f [of 2] c [of 3]
    unfolding t m by simp
  have t0: "snd (snd (snd (Attach (handle 3) (flakyAttach 0)))) = None"
    using retry_task_starts_when_Monitor_resize_fails [OF h [of 3], of "flakyAttach 0"] f0 [of 3] c [of 0]
    unfolding t m by simp
  show ?thesis
    using f [of 3] f0 [of 3] c [of 3] a t0 unfolding t3 t2 r3 r2 by simp
qed
section \<open>Loopback source-control server: properties\<close>

text \<open>
  C5, as stated, fails twice. On a host where \<open>.git\<close> exists, the listener can be bound
  and git is found, NewServer still fails when the path cannot be made absolute. And
  on a host where only the git binary is missing, NewServer returns its error with the
  listener it has just bound (descriptor 3) still open.
\<close>

theorem NewServer_counterexample:
  "isl (fst (NewServer (host False True True True) ''.'' \<lparr>listening = [], serving = []\<rparr>))
   \<and> Stat (host False True True True) (Join [''.'', ''.git'']) \<noteq> StatNotExist
   \<and> \<not> isl (Listen (host False True True True))
   \<and> \<not> isl (LookPath (host False True True True) ''git'')
   \<and> isl (fst (NewServer (host True True True False) ''/repo'' \<lparr>listening = [], serving = []\<rparr>))
   \<and> listening (snd (NewServer (host True True True False) ''/repo'' \<lparr>listening = [], serving = []\<rparr>)) = [3]"
  by (simp add: NewServer_def host_def)

text \<open>
  C5, amended. NewServer fails exactly when the path cannot be made absolute, or
  \<open>os.Stat\<close> reports \<open>path/.git\<close> as not existing, or the loopback listener cannot be
  bound, or git is not found in PATH, or the bound listener's address cannot be split
  and parsed into a port number. When it fails for one of the first three reasons, the
  sockets of the process are as they were before the call. When it succeeds, the
  listener it returns is the one it bound, now open and served.
\<close>

theorem NewServer_fails_exactly_when:
  "(isl (fst (NewServer e path st)) \<longleftrightarrow>
      isl (Abs e path)
      \<or> (\<exists>p. Abs e path = Inr p \<and> Stat e (Join [p, ''.git'']) = StatNotExist)
      \<or> isl (Listen e)
      \<or> isl (LookPath e ''git'')
      \<or> (\<exists>l. Listen e = Inr l
             \<and> (isl (SplitHostPort e (Addr l))
                 \<or> (\<exists>h ps. SplitHostPort e (Addr l) = Inr (h, ps) \<and> isl (ParseInt e ps)))))
   \<and> (isl (Abs e path)
        \<or> (\<exists>p. Abs e path = Inr p \<and> Stat e (Join [p, ''.git'']) = StatNotExist)
        \<or> isl (Listen e)
       \<longrightarrow> isl (fst (NewServer e path st)) \<and> snd (NewServer e path st) = st)
   \<and> (\<forall>s. fst (NewServer e path st) = Inr s \<longrightarrow>
          Listen e = Inr (listener s)
          \<and> listening (snd (NewServer e path st)) = fd (listener s) # listening st
          \<and> serving (snd (NewServer e path st)) = fd (listener s) # serving st)"
  by (auto simp: NewServer_def Let_def split: sum.splits prod.splits)

text \<open>A directory that is no repository, and a repository on a host where nothing fails.\<close>

theorem NewServer_fails_exactly_when_witness:
  "isl (fst (NewServer (host True False True True) ''/tmp'' \<lparr>listening = [], serving = []\<rparr>))
   \<and> snd (NewServer (host True False True True) ''/tmp'' \<lparr>listening = [], serving = []\<rparr>)
       = \<lparr>listening = [], serving = []\<rparr>
   \<and> fst (NewServer (host True True True True) ''/repo'' \<lparr>listening = [], serving = []\<rparr>)
       = Inr \<lparr>listener = \<lparr>fd = 3, Addr = ''127.0.0.1:40123''\<rparr>, port = 40123\<rparr>
   \<and> listening (snd (NewServer (host True True True True) ''/repo'' \<lparr>listening = [], serving = []\<rparr>)) = [3]"
proof -
  have a: "Abs (host True False True True) ''/tmp'' = Inr ''/tmp''
           \<and> Stat (host True False True True) (Join [''/tmp'', ''.git'']) = StatNotExist"
    by (simp add: host_def)
  have b: "fst (NewServer (host True True True True) ''/repo'' \<lparr>listening = [], serving = []\<rparr>)
             = Inr \<lparr>listener = \<lparr>fd = 3, Addr = ''127.0.0.1:40123''\<rparr>, port = 40123\<rparr>"
    by (simp add: NewServer_def host_def)
  show ?thesis
    using a b
      NewServer_fails_exactly_when [of "host True False True True" "''/tmp''" "\<lparr>listening = [], serving = []\<rparr>"]
      NewServer_fails_exactly_when [of "host True True True True" "''/repo''" "\<lparr>listening = [], serving = []\<rparr>"]
    by auto
qed

section \<open>Orchestrator: properties\<close>

lemma CreateContainer_passes_network:
  "CreateContainer capturingClient sessionID image' args' env volumes' workingDir network'
     stopTimeout ttyRetries delay
     = Inr \<lparr>client = capturingClient, ID = network', Name = sessionID, StopTimeout = stopTimeout,
            TTYRetries = ttyRetries, RetryDelay = delay\<rparr>"
  by (simp add: CreateContainer_def capturingClient_def)

text \<open>
  C6, on the command line \<open>--network some-network cmd\<close>. ParseConfig stores the network
  name in the Config, and CreateContainer declares a parameter for it, but the call in
  \<open>run\<close> has nine arguments for the ten parameters, so that it binds to no call of
  CreateContainer, and the network name is none of the nine.
\<close>

theorem run_does_not_pass_network:
  "Config.Network (ParseConfig [''--network'', ''some-network'', ''cmd''] [''TERM=xterm'']) = ''some-network''
   \<and> bind CreateContainer_parameters
         (run_CreateContainer_arguments
            (ParseConfig [''--network'', ''some-network'', ''cmd''] [''TERM=xterm''])
            ''contagent-1234'' \<lparr>Image.Name = ''contagent:latest''\<rparr>) = None
   \<and> StringArg ''some-network''
       \<notin> set (run_CreateContainer_arguments
                 (ParseConfig [''--network'', ''some-network'', ''cmd''] [''TERM=xterm''])
                 ''contagent-1234'' \<lparr>Image.Name = ''contagent:latest''\<rparr>)"
proof -
  have p: "snd (Parse [''--network'', ''some-network'', ''cmd''] NewFlagSet)
             = NewFlagSet\<lparr>network := ''some-network'', args := [''cmd'']\<rparr>"
    using parseLoop_flags [where cmd = "[''cmd'']" and f = NewFlagSet
                               and fl = "[(DashDash, NetworkFlag, ''some-network'')]"]
    by (simp add: Parse_def isCommand_def setFlag_def formal_def NewFlagSet_def)
  have n: "Config.Network (ParseConfig [''--network'', ''some-network'', ''cmd''] [''TERM=xterm''])
             = ''some-network''"
    by (simp add: ParseConfig_def Let_def p)
  have w: "Config.WorkingDir (ParseConfig a e) = ''/app''" for a e
    by (simp add: ParseConfig_def Let_def)
  show ?thesis
    by (simp add: n w bind_def CreateContainer_parameters_def run_CreateContainer_arguments_def)
qed

section \<open>Paths: properties\<close>

lemma splitSlash_not_Nil: "splitSlash s \<noteq> []"
  by (induction s) (auto split: list.splits)

lemma splitSlash_append: "splitSlash (xs @ CHR ''/'' # ys) = splitSlash xs @ splitSlash ys"
proof (induction xs)
  case Nil
  show ?case by simp
next
  case (Cons c cs)
  obtain x xs' where s: "splitSlash cs = x # xs'"
    using splitSlash_not_Nil [of cs] by (cases "splitSlash cs") auto
  show ?case
    by (simp add: Cons.IH s)
qed

lemma splitSlash_plain: "CHR ''/'' \<notin> set s \<Longrightarrow> splitSlash s = [s]"
  by (induction s) auto

lemma splitSlash_joinSlash:
  "ns \<noteq> [] \<Longrightarrow> list_all (\<lambda>n. CHR ''/'' \<notin> set n) ns \<Longrightarrow> splitSlash (joinSlash ns) = ns"
proof (induction ns rule: joinSlash.induct)
  case 1
  then show ?case by simp
next
  case (2 x)
  then show ?case by (simp add: splitSlash_plain)
next
  case (3 x y ys)
  then show ?case by (simp add: splitSlash_append splitSlash_plain)
qed

lemma foldl_cleanStep:
  "''..'' \<notin> set cs \<Longrightarrow>
   foldl (cleanStep r) out cs = out @ filter (\<lambda>c. c \<noteq> [] \<and> c \<noteq> ''.'') cs"
  by (induction cs arbitrary: out) (auto simp: cleanStep_def)

lemma joinSlash_app: "cs \<noteq> [] \<Longrightarrow> joinSlash (''app'' # cs) = ''app/'' @ joinSlash cs"
  by (cases cs) simp_all

lemma Clean_under_app:
  assumes "''..'' \<notin> set (splitSlash rest)"
    and "filter (\<lambda>c. c \<noteq> [] \<and> c \<noteq> ''.'') (splitSlash rest) \<noteq> []"
  shows "prefix ''app/'' (Clean (''app/'' @ rest))"
proof -
  have s: "splitSlash (''app/'' @ rest) = ''app'' # splitSlash rest"
    using splitSlash_append [of "''app''" rest] by simp
  have "foldl (cleanStep False) [] (''app'' # splitSlash rest)
          = ''app'' # filter (\<lambda>c. c \<noteq> [] \<and> c \<noteq> ''.'') (splitSlash rest)"
    using foldl_cleanStep [OF assms(1), of False "[''app'']"] by (simp add: cleanStep_def)
  then have "Clean (''app/'' @ rest)
          = joinSlash (''app'' # filter (\<lambda>c. c \<noteq> [] \<and> c \<noteq> ''.'') (splitSlash rest))"
    by (simp add: Clean_def s)
  then show ?thesis
    using assms(2) by (simp add: joinSlash_app)
qed

lemma Join_app_tracked:
  assumes "trackedPath p"
  shows "prefix ''app/'' (Join [''app'', p])"
proof -
  have n: "list_all entryName (splitSlash p)"
    using assms by (simp add: trackedPath_def)
  then have a: "''..'' \<notin> set (splitSlash p)"
    by (auto simp: list_all_iff entryName_def)
  have "filter (\<lambda>c. c \<noteq> [] \<and> c \<noteq> ''.'') (splitSlash p) = splitSlash p"
    using n by (auto simp: list_all_iff entryName_def intro!: filter_True)
  then have b: "filter (\<lambda>c. c \<noteq> [] \<and> c \<noteq> ''.'') (splitSlash p) \<noteq> []"
    by (simp add: splitSlash_not_Nil)
  show ?thesis
    using Clean_under_app [OF a b] by (simp add: Join_def)
qed

lemma Join_app_git_walked:
  assumes "walked v"
  shows "prefix ''app/'' (Join [''app/.git'', Rel v])"
proof -
  have n: "list_all entryName (names v)"
    using assms by (simp add: walked_def)
  have sp: "splitSlash (''.git/'' @ Rel v) = ''.git'' # splitSlash (Rel v)"
    using splitSlash_append [of "''.git''" "Rel v"] by simp
  have rel: "''..'' \<notin> set (splitSlash (Rel v))"
  proof (cases "names v = []")
    case True
    then show ?thesis by (simp add: Rel_def)
  next
    case False
    have "list_all (\<lambda>n. CHR ''/'' \<notin> set n) (names v)"
      using n by (auto simp: list_all_iff entryName_def)
    then have "splitSlash (Rel v) = names v"
      using False by (simp add: Rel_def splitSlash_joinSlash)
    then show ?thesis
      using n by (auto simp: list_all_iff entryName_def)
  qed
  have a: "''..'' \<notin> set (splitSlash (''.git/'' @ Rel v))"
    using rel by (simp add: sp)
  have b: "filter (\<lambda>c. c \<noteq> [] \<and> c \<noteq> ''.'') (splitSlash (''.git/'' @ Rel v)) \<noteq> []"
    by (simp add: sp)
  show ?thesis
    using Clean_under_app [OF a b] by (simp add: Join_def)
qed

lemma prefix_app_slashes: "prefix ''app/'' s \<Longrightarrow> prefix ''app/'' (slashes s)"
  by (auto simp: prefix_def slashes_def)

lemma prefix_app_not_rooted: "prefix ''app/'' s \<Longrightarrow> \<not> prefix ''/'' s"
  by (auto simp: prefix_def)


section \<open>Snapshot pipeline: properties\<close>

lemma WriteHeader_written:
  "WriteHeader tw h = (r, tw') \<Longrightarrow> set (written tw') \<subseteq> insert h (set (written tw))"
  by (auto simp: WriteHeader_def split: option.splits nat.splits)

lemma addToArchive_written:
  assumes "addToArchive fs srcDir tarPath tw v = (r, tw')" and "x \<in> set (written tw')"
  shows "x \<in> set (written tw)
         \<or> (\<not> isSymlink (info v) \<and> (x = walkedDirHeader tarPath v \<or> x = walkedFileHeader tarPath v))"
  using assms
  by (auto simp: addToArchive_def Let_def split: option.splits if_splits prod.splits
           dest!: WriteHeader_written)

lemma addDirectoryToArchive_written:
  assumes "addDirectoryToArchive fs tw srcDir vs tarPath = (r, tw')" and "x \<in> set (written tw')"
  shows "x \<in> set (written tw)
         \<or> (\<exists>v \<in> set vs. \<not> isSymlink (info v)
               \<and> (x = walkedDirHeader tarPath v \<or> x = walkedFileHeader tarPath v))"
  using assms
proof (induction vs arbitrary: tw)
  case Nil
  then show ?case by simp
next
  case (Cons v vs)
  obtain r1 tw1 where s: "addToArchive fs srcDir tarPath tw v = (r1, tw1)"
    by (cases "addToArchive fs srcDir tarPath tw v")
  show ?case
  proof (cases r1)
    case (Some e)
    then have "tw' = tw1" using Cons.prems(1) s by simp
    then show ?thesis
      using addToArchive_written [OF s] Cons.prems(2) by auto
  next
    case None
    then have "addDirectoryToArchive fs tw1 srcDir vs tarPath = (r, tw')"
      using Cons.prems(1) s by simp
    from Cons.IH [OF this Cons.prems(2)] show ?thesis
      using addToArchive_written [OF s] by auto
  qed
qed

lemma addTracked_written:
  assumes "addTracked fs tempRoot tw ps = (r, tw')" and "x \<in> set (written tw')"
  shows "x \<in> set (written tw)
         \<or> (\<exists>p \<in> set ps. \<exists>i. p \<noteq> [] \<and> Lstat fs (Join [tempRoot, p]) = Inr i \<and> \<not> isSymlink i
               \<and> (x = trackedDirHeader p i \<or> x = trackedFileHeader p i))"
  using assms
proof (induction ps arbitrary: tw)
  case Nil
  then show ?case by simp
next
  case (Cons p rest)
  show ?case
  proof (cases "p = []")
    case True
    then show ?thesis using Cons by auto
  next
    case False
    show ?thesis
    proof (cases "Lstat fs (Join [tempRoot, p])")
      case (Inl e)
      then show ?thesis using Cons False by auto
    next
      case (Inr i)
      show ?thesis
      proof (cases "isSymlink i")
        case True
        then show ?thesis using Cons False Inr by auto
      next
        case notlink: False
        show ?thesis
        proof (cases "IsDir i")
          case True
          obtain r1 tw1 where w: "WriteHeader tw (trackedDirHeader p i) = (r1, tw1)"
            by (cases "WriteHeader tw (trackedDirHeader p i)")
          have sub: "set (written tw1) \<subseteq> insert (trackedDirHeader p i) (set (written tw))"
            by (rule WriteHeader_written [OF w])
          show ?thesis
          proof (cases r1)
            case (Some e)
            then have "tw' = tw1"
              using Cons.prems(1) False Inr notlink True w by (simp add: Let_def)
            then show ?thesis
              using sub Cons.prems(2) False Inr notlink by auto
          next
            case None
            then have "addTracked fs tempRoot tw1 rest = (r, tw')"
              using Cons.prems(1) False Inr notlink True w by (simp add: Let_def)
            from Cons.IH [OF this Cons.prems(2)] show ?thesis
              using sub False Inr notlink by auto
          qed
        next
          case notdir: False
          show ?thesis
          proof (cases "Open fs (Join [tempRoot, p])")
            case (Some e)
            then have "tw' = tw"
              using Cons.prems(1) False Inr notlink notdir by (simp add: Let_def)
            then show ?thesis using Cons.prems(2) by simp
          next
            case None
            obtain r1 tw1 where w: "WriteHeader tw (trackedFileHeader p i) = (r1, tw1)"
              by (cases "WriteHeader tw (trackedFileHeader p i)")
            have sub: "set (written tw1) \<subseteq> insert (trackedFileHeader p i) (set (written tw))"
              by (rule WriteHeader_written [OF w])
            show ?thesis
            proof (cases "r1 = None \<and> Copy fs (Join [tempRoot, p]) = None")
              case True
              then have "addTracked fs tempRoot tw1 rest = (r, tw')"
                using Cons.prems(1) False Inr notlink notdir None w by (simp add: Let_def)
              from Cons.IH [OF this Cons.prems(2)] show ?thesis
                using sub False Inr notlink by auto
            next
              case stop: False
              then have "tw' = tw1"
                using Cons.prems(1) False Inr notlink notdir None w
                by (auto simp: Let_def split: option.splits)
              then show ?thesis
                using sub Cons.prems(2) False Inr notlink by auto
            qed
          qed
        qed
      qed
    qed
  qed
qed


lemma copyDirectory_ops:
  assumes "copyDirectory fs src vs dst = (r, ops)" and "op \<in> set ops"
  shows "\<exists>v \<in> set vs. \<not> isSymlink (info v)
           \<and> (op = MkdirAllOp (Join [dst, Rel v]) (FileInfo.Mode (info v))
               \<or> op = copyFileOp (Join [src, Rel v]) (Join [dst, Rel v]) (FileInfo.Mode (info v)))"
  using assms
proof (induction vs arbitrary: r ops)
  case Nil
  then show ?case by simp
next
  case (Cons v vs)
  obtain r1 ops1 where rest: "copyDirectory fs src vs dst = (r1, ops1)"
    by (cases "copyDirectory fs src vs dst")
  have "op \<in> set ops1
        \<or> (\<not> isSymlink (info v)
            \<and> (op = MkdirAllOp (Join [dst, Rel v]) (FileInfo.Mode (info v))
                \<or> op = copyFileOp (Join [src, Rel v]) (Join [dst, Rel v]) (FileInfo.Mode (info v))))"
    using Cons.prems rest by (auto simp: Let_def split: option.splits if_splits)
  then show ?case
    using Cons.IH [OF rest] by auto
qed

lemma archive_entries:
  assumes "x \<in> set (entries (archive e gitRoot tempRoot remote branch gitUserName gitUserEmail))"
  shows "x = appHeader \<or> fromWalk e x \<or> fromTracked e tempRoot x"
proof -
  let ?dst = "Join [tempRoot, ''.git'']"
  obtain r0 tw0 where w0: "WriteHeader \<lparr>written = [], room = reader e\<rparr> appHeader = (r0, tw0)"
    by (cases "WriteHeader \<lparr>written = [], room = reader e\<rparr> appHeader")
  obtain r1 tw1 where w1: "addDirectoryToArchive (files e) tw0 ?dst (walkDst e) ''app/.git'' = (r1, tw1)"
    by (cases "addDirectoryToArchive (files e) tw0 ?dst (walkDst e) ''app/.git''")
  have s0: "y \<in> set (written tw0) \<Longrightarrow> y = appHeader" for y
    using WriteHeader_written [OF w0] by auto
  have s1: "y \<in> set (written tw1) \<Longrightarrow> y = appHeader \<or> fromWalk e y" for y
    using addDirectoryToArchive_written [OF w1, of y] s0 by (auto simp: fromWalk_def)
  have s2: "y = appHeader \<or> fromWalk e y \<or> fromTracked e tempRoot y"
    if "lsFiles e = Inr ps" "addTracked (files e) tempRoot tw1 ps = (r2, tw2)" "y \<in> set (written tw2)"
    for y ps r2 tw2
    using addTracked_written [OF that(2,3)] s1 [of y] that(1) by (auto simp: fromTracked_def)
  have "x \<in> set (written tw0) \<or> x \<in> set (written tw1)
        \<or> (\<exists>ps r2 tw2. lsFiles e = Inr ps \<and> addTracked (files e) tempRoot tw1 ps = (r2, tw2)
              \<and> x \<in> set (written tw2))"
    using assms w0 w1 unfolding archive_def failedWith_def Let_def
    by (auto split: prod.splits option.splits sum.splits if_splits)
  then show ?thesis
    using s0 s1 s2 by blast
qed

lemma archive_copied:
  assumes "op \<in> set (copied (archive e gitRoot tempRoot remote branch gitUserName gitUserEmail))"
  shows "fromSource e (Join [gitRoot, ''.git'']) (Join [tempRoot, ''.git'']) op"
proof -
  obtain r ops where c: "copyDirectory (files e) (Join [gitRoot, ''.git'']) (walkSrc e) (Join [tempRoot, ''.git'']) = (r, ops)"
    by (cases "copyDirectory (files e) (Join [gitRoot, ''.git'']) (walkSrc e) (Join [tempRoot, ''.git''])")
  have "op \<in> set ops"
    using assms c unfolding archive_def failedWith_def Let_def
    by (auto split: prod.splits option.splits sum.splits if_splits)
  then show ?thesis
    using copyDirectory_ops [OF c] by (simp add: fromSource_def)
qed


lemma Typeflags: "TypeDir \<noteq> TypeSymlink" "CHR 0x00 \<noteq> TypeSymlink"
  by (simp_all add: TypeDir_def TypeSymlink_def)

lemma appHeader_ok:
  "prefix ''app/'' (Header.Name appHeader) \<and> Typeflag appHeader \<noteq> TypeSymlink"
  by (simp add: appHeader_def Typeflags)

lemma fromWalk_ok:
  assumes "list_all walked (walkDst e)" and "fromWalk e h"
  shows "prefix ''app/'' (Header.Name h) \<and> Typeflag h \<noteq> TypeSymlink"
proof -
  from assms(2) obtain v where v: "v \<in> set (walkDst e)"
    "h = walkedDirHeader ''app/.git'' v \<or> h = walkedFileHeader ''app/.git'' v"
    by (auto simp: fromWalk_def)
  have "walked v" using assms(1) v(1) by (simp add: list_all_iff)
  then have "prefix ''app/'' (slashes (Join [''app/.git'', Rel v]))"
    by (intro prefix_app_slashes Join_app_git_walked)
  then show ?thesis
    using v(2) by (auto simp: walkedDirHeader_def walkedFileHeader_def Typeflags)
qed

lemma fromTracked_ok:
  assumes "\<forall>ps. lsFiles e = Inr ps \<longrightarrow> list_all (\<lambda>p. p = [] \<or> trackedPath p) ps"
    and "fromTracked e tempRoot h"
  shows "prefix ''app/'' (Header.Name h) \<and> Typeflag h \<noteq> TypeSymlink"
proof -
  from assms(2) obtain ps p i where p: "lsFiles e = Inr ps" "p \<in> set ps" "p \<noteq> []"
    "h = trackedDirHeader p i \<or> h = trackedFileHeader p i"
    by (auto simp: fromTracked_def)
  have "trackedPath p" using assms(1) p(1,2,3) by (auto simp: list_all_iff)
  then have "prefix ''app/'' (Join [''app'', p])"
    by (rule Join_app_tracked)
  then show ?thesis
    using p(4) by (auto simp: trackedDirHeader_def trackedFileHeader_def Typeflags)
qed

text \<open>
  C3. Let CreateArchive return a stream, let the walk of the copied \<open>.git\<close> reach its
  files through directory-entry names, and let every line of \<open>git ls-files\<close> be empty or
  a path of such names. Then every header of the stream, whether the stream ends
  cleanly or with an error, has a name that starts with \<open>app/\<close> (and so not with \<open>/\<close>)
  and a type flag that is not the one of a symbolic link; and it is the header of
  \<open>app/\<close> itself, or of a file met in the walk that is no symbolic link, or of a
  tracked path that is no symbolic link. Likewise every directory made and every file
  copied while the control directory is copied is a file of the walk of the
  repository's \<open>.git\<close> that is no symbolic link: links are passed over in all three
  places.
\<close>

theorem CreateArchive_entries_under_app_and_no_symlinks:
  assumes "CreateArchive e path remote branch gitUserName gitUserEmail = Inr s"
    and "list_all walked (walkDst e)"
    and "\<forall>ps. lsFiles e = Inr ps \<longrightarrow> list_all (\<lambda>p. p = [] \<or> trackedPath p) ps"
  shows "list_all (\<lambda>h. prefix ''app/'' (Header.Name h) \<and> \<not> prefix ''/'' (Header.Name h)
                       \<and> Typeflag h \<noteq> TypeSymlink
                       \<and> (h = appHeader \<or> fromWalk e h
                           \<or> (\<exists>tempDir. MkdirTemp e = Inr tempDir \<and> fromTracked e tempDir h)))
                  (entries s)
         \<and> list_all (\<lambda>op. \<exists>out tempDir. revParse e = Inr out \<and> MkdirTemp e = Inr tempDir
                              \<and> fromSource e (Join [TrimSpace out, ''.git'']) (Join [tempDir, ''.git'']) op)
                    (copied s)"
proof -
  from assms(1) obtain out tempDir where o: "revParse e = Inr out" "MkdirTemp e = Inr tempDir"
    and s: "s = archive e (TrimSpace out) tempDir remote branch gitUserName gitUserEmail"
    by (auto simp: CreateArchive_def Let_def split: sum.splits)
  have "prefix ''app/'' (Header.Name h) \<and> \<not> prefix ''/'' (Header.Name h) \<and> Typeflag h \<noteq> TypeSymlink
        \<and> (h = appHeader \<or> fromWalk e h \<or> (\<exists>tempDir. MkdirTemp e = Inr tempDir \<and> fromTracked e tempDir h))"
    if "h \<in> set (entries s)" for h
  proof -
    from archive_entries [OF that [unfolded s]]
    have src: "h = appHeader \<or> fromWalk e h \<or> fromTracked e tempDir h" .
    then have ok: "prefix ''app/'' (Header.Name h) \<and> Typeflag h \<noteq> TypeSymlink"
      using appHeader_ok fromWalk_ok [OF assms(2)] fromTracked_ok [OF assms(3)] by blast
    then show ?thesis
      using src o(2) prefix_app_not_rooted by blast
  qed
  moreover have "\<exists>out tempDir. revParse e = Inr out \<and> MkdirTemp e = Inr tempDir
                   \<and> fromSource e (Join [TrimSpace out, ''.git'']) (Join [tempDir, ''.git'']) op"
    if "op \<in> set (copied s)" for op
    using archive_copied [OF that [unfolded s]] o by blast
  ultimately show ?thesis
    by (simp add: list_all_iff)
qed


text \<open>
  The small repository: neither the link \<open>hooks\<close> under \<open>.git\<close> nor the tracked link
  \<open>link.txt\<close> is in the stream or in the copy.
\<close>

theorem CreateArchive_entries_under_app_and_no_symlinks_witness:
  "list_all walked (walkDst smallRepo)
   \<and> lsFiles smallRepo = Inr [''link.txt'', ''regular.txt'']
   \<and> list_all trackedPath [''link.txt'', ''regular.txt'']
   \<and> CreateArchive smallRepo ''/repo/sub'' ''http://host.docker.internal:40123'' ''contagent/1234''
         ''Contagent'' ''contagent@example.com''
       = Inr (archive smallRepo ''/repo'' ''/tmp/contagent-checkout-1''
                ''http://host.docker.internal:40123'' ''contagent/1234'' ''Contagent'' ''contagent@example.com'')
   \<and> map Header.Name
         (entries (archive smallRepo ''/repo'' ''/tmp/contagent-checkout-1''
                     ''http://host.docker.internal:40123'' ''contagent/1234'' ''Contagent''
                     ''contagent@example.com''))
       = [''app/'', ''app/.git/'', ''app/.git/HEAD'', ''app/regular.txt'']
   \<and> list_all (\<lambda>h. prefix ''app/'' (Header.Name h) \<and> \<not> prefix ''/'' (Header.Name h)
                      \<and> Typeflag h \<noteq> TypeSymlink
                      \<and> (h = appHeader \<or> fromWalk smallRepo h
                          \<or> (\<exists>tempDir. MkdirTemp smallRepo = Inr tempDir \<and> fromTracked smallRepo tempDir h)))
         (entries (archive smallRepo ''/repo'' ''/tmp/contagent-checkout-1''
                     ''http://host.docker.internal:40123'' ''contagent/1234'' ''Contagent''
                     ''contagent@example.com''))
   \<and> copied (archive smallRepo ''/repo'' ''/tmp/contagent-checkout-1''
                ''http://host.docker.internal:40123'' ''contagent/1234'' ''Contagent'' ''contagent@example.com'')
       = [MkdirAllOp ''/tmp/contagent-checkout-1/.git'' 2147484141,
          copyFileOp ''/repo/.git/HEAD'' ''/tmp/contagent-checkout-1/.git/HEAD'' 420]"
proof -
  let ?s = "archive smallRepo ''/repo'' ''/tmp/contagent-checkout-1''
              ''http://host.docker.internal:40123'' ''contagent/1234'' ''Contagent'' ''contagent@example.com''"
  have w: "list_all walked (walkDst smallRepo)"
    by code_simp
  have l: "lsFiles smallRepo = Inr [''link.txt'', ''regular.txt'']"
    by (simp add: smallRepo_def)
  have t: "list_all trackedPath [''link.txt'', ''regular.txt'']"
    by code_simp
  have t': "\<forall>ps. lsFiles smallRepo = Inr ps \<longrightarrow> list_all (\<lambda>p. p = [] \<or> trackedPath p) ps"
    using t by (simp add: l)
  have trim: "TrimSpace ''/repo\<newline>'' = ''/repo''"
    by code_simp
  have c: "CreateArchive smallRepo ''/repo/sub'' ''http://host.docker.internal:40123'' ''contagent/1234''
             ''Contagent'' ''contagent@example.com'' = Inr ?s"
  proof -
    have "revParse smallRepo = Inr ''/repo\<newline>''" "MkdirTemp smallRepo = Inr ''/tmp/contagent-checkout-1''"
      by (simp_all add: smallRepo_def)
    then show ?thesis
      by (simp add: CreateArchive_def Let_def trim)
  qed
  have n: "map Header.Name (entries ?s) = [''app/'', ''app/.git/'', ''app/.git/HEAD'', ''app/regular.txt'']"
    by code_simp
  have o: "copied ?s = [MkdirAllOp ''/tmp/contagent-checkout-1/.git'' 2147484141,
                        copyFileOp ''/repo/.git/HEAD'' ''/tmp/contagent-checkout-1/.git/HEAD'' 420]"
    by code_simp
  show ?thesis
    using w l t c n o CreateArchive_entries_under_app_and_no_symlinks [OF c w t']
    by blast
qed

end
